theory Spec2Isabelle
  imports Main
begin

section \<open>Text of integers and of the participant ID\<close>

text \<open>
  The markers are built with Python f-strings. An \<open>int\<close> inside one is printed in decimal;
  every integer the program prints is a counter that starts at 0 or 1 and only grows, so it
  is a \<open>nat\<close> here. \<open>None\<close> inside an f-string is printed as the word \<open>None\<close>.
\<close>

definition digit_char :: "nat \<Rightarrow> char" where
  "digit_char d = ''0123456789'' ! d"

fun str_nat :: "nat \<Rightarrow> string" where
  "str_nat n = (if n < 10 then [digit_char n] else str_nat (n div 10) @ [digit_char (n mod 10)])"

declare str_nat.simps [simp del]

definition str_opt_nat :: "nat option \<Rightarrow> string" where
  "str_opt_nat v = (case v of None \<Rightarrow> ''None'' | Some n \<Rightarrow> str_nat n)"

text \<open>
  \<open>str.strip()\<close> removes leading and trailing whitespace. The characters below are the
  ones Python counts as whitespace among the code points below 256.
\<close>

definition is_space :: "char \<Rightarrow> bool" where
  "is_space c = (c \<in> set [CHR 0x09, CHR 0x0A, CHR 0x0B, CHR 0x0C, CHR 0x0D,
                          CHR 0x1C, CHR 0x1D, CHR 0x1E, CHR 0x1F, CHR 0x20, CHR 0x85, CHR 0xA0])"

definition strip :: "string \<Rightarrow> string" where
  "strip s = rev (dropWhile is_space (rev (dropWhile is_space s)))"


section \<open>Marker labels\<close>

text \<open>
  The labels the program hands to \<open>send_marker\<close>, one definition for each f-string of the
  source. The three labels without a number (\<open>Session_Start\<close>, \<open>PostSurvey_Start\<close>,
  \<open>PostSurvey_End\<close>) are written as literals where they are sent. The index of a rest is
  read from \<open>_conn_rest_for_puzzle_index\<close>, which may be \<open>None\<close>.
\<close>

definition Connections_Start :: "nat \<Rightarrow> string" where
  "Connections_Start i = ''Connections'' @ str_nat i @ ''_Start''"

definition Connections_Guess_Correct :: "nat \<Rightarrow> nat \<Rightarrow> string" where
  "Connections_Guess_Correct i g = ''Connections'' @ str_nat i @ ''_Guess'' @ str_nat g @ ''_Correct''"

definition Connections_Guess_Incorrect :: "nat \<Rightarrow> nat \<Rightarrow> string" where
  "Connections_Guess_Incorrect i g = ''Connections'' @ str_nat i @ ''_Guess'' @ str_nat g @ ''_Incorrect''"

definition Connections_End :: "nat \<Rightarrow> string" where
  "Connections_End i = ''Connections'' @ str_nat i @ ''_End''"

definition Connections_Rest_Start :: "nat \<Rightarrow> string" where
  "Connections_Rest_Start i = ''Connections'' @ str_nat i @ ''_Rest_Start''"

definition Connections_Rest_End :: "nat option \<Rightarrow> string" where
  "Connections_Rest_End i = ''Connections'' @ str_opt_nat i @ ''_Rest_End''"

definition ConnectionQ_value :: "nat option \<Rightarrow> nat \<Rightarrow> string" where
  "ConnectionQ_value i v = ''ConnectionQ'' @ str_opt_nat i @ ''_'' @ str_nat v"

definition ConnectionQ_NoResponse :: "nat option \<Rightarrow> string" where
  "ConnectionQ_NoResponse i = ''ConnectionQ'' @ str_opt_nat i @ ''_NoResponse''"

definition RAT_Start :: "nat \<Rightarrow> string" where
  "RAT_Start i = ''RAT'' @ str_nat i @ ''_Start''"

definition RAT_Response_Y :: "nat \<Rightarrow> string" where
  "RAT_Response_Y i = ''RAT'' @ str_nat i @ ''_Response_Y''"

definition RAT_Response_N :: "nat \<Rightarrow> string" where
  "RAT_Response_N i = ''RAT'' @ str_nat i @ ''_Response_N''"

definition RAT_End :: "nat \<Rightarrow> string" where
  "RAT_End i = ''RAT'' @ str_nat i @ ''_End''"

definition RAT_Rest_Start :: "nat \<Rightarrow> string" where
  "RAT_Rest_Start i = ''RAT'' @ str_nat i @ ''_Rest_Start''"

definition RAT_Rest_End :: "nat \<Rightarrow> string" where
  "RAT_Rest_End i = ''RAT'' @ str_nat i @ ''_Rest_End''"

definition PostQ_value :: "nat \<Rightarrow> nat \<Rightarrow> string" where
  "PostQ_value q v = ''PostQ'' @ str_nat q @ ''_'' @ str_nat v"

definition PostQ_NoResponse :: "nat \<Rightarrow> string" where
  "PostQ_NoResponse q = ''PostQ'' @ str_nat q @ ''_NoResponse''"

section \<open>Data model\<close>

text \<open>
  A tile is the dict \<open>{"text": ..., "group": ..., "matched": ...}\<close> of
  \<open>ConnectionsGame.start_new_puzzle\<close>.
\<close>

record tile =
  tile_text :: string
  tile_group :: string
  matched :: bool

record ConnectionsGame =
  puzzle_index :: nat
  selected :: "nat list"
  found_groups :: nat
  guess_count :: nat
  tiles :: "tile list"

datatype rat_phase = Think | Reveal | Rest | Done

text \<open>
  The attributes of a \<open>RATGame\<close> object, without the leading underscore of the private
  ones. \<open>phase\<close> is \<open>None\<close> until the first item starts. The two \<open>after\<close> handles are
  \<open>None\<close> or the identifier \<open>root.after\<close> returned.
\<close>

record RATGame =
  index :: nat
  phase :: "rat_phase option"
  awaiting_yes_no :: bool
  think_seconds :: nat
  rest_seconds_default :: nat
  think_after_id :: "nat option"
  rest_after_id :: "nat option"
  think_remaining :: nat
  rest_remaining :: nat

record PostQuestionnaire =
  questions :: "string list"
  q_index :: nat

text \<open>
  The callables the program stores in \<open>_last_on_next\<close> and binds to the Return key, and the
  callables it hands to \<open>after\<close>. A bound method of a \<open>RATGame\<close> carries the position of
  its object in the store \<open>rats\<close>.
\<close>

datatype callback =
    CB_submit
  | CB_show_connections_instructions
  | CB_start_connections_game
  | CB_start_rat_task
  | CB_show_post_questions
  | CB_destroy
  | CB_end_connections_rest
  | CB_skip_current

datatype timer_cb =
    T_on_connections_puzzle_complete
  | T_tick_connections_rest
  | T_tick_think nat
  | T_tick_rest nat

text \<open>
  The state of the process: the attributes of \<open>ExperimentApp\<close>, the objects it created
  (every \<open>ConnectionsGame\<close> and every \<open>RATGame\<close> stays in its store, because buttons and
  timers keep referring to an object after \<open>self.conn\<close> or \<open>self.rat\<close> has been
  replaced), and what Tk holds for it: the text typed in the ID entry, the Return and Y/N
  key bindings, the pending \<open>after\<close> callbacks as (identifier, delay in ms, callable), and
  whether the window was destroyed. \<open>out\<close> is the sequence of marker strings pushed to the
  outlet and printed.
\<close>

record app =
  player_id :: "string option"
  out :: "string list"
  entry_text :: string
  connections_puzzles_completed :: nat
  connections_spontaneity :: "nat option list"
  last_on_next :: "callback option"
  return_binding :: "callback option"
  conn_rest_active :: bool
  conn_rest_remaining :: nat
  conn_rest_after_id :: "nat option"
  conn_rating_choice :: "nat option"
  conn_rest_for_puzzle_index :: "nat option"
  conns :: "ConnectionsGame list"
  conn :: "nat option"
  rats :: "RATGame list"
  rat :: "nat option"
  postq :: "PostQuestionnaire option"
  yn_bound :: "nat option"
  timers :: "(nat \<times> nat \<times> timer_cb) list"
  next_timer :: nat
  destroyed :: bool

definition RAT_PROMPTS :: "string list" where
  "RAT_PROMPTS = [''cottage / swiss / cake'', ''cream / skate / water'', ''rocking / wheel / high'',
     ''show / life / row'', ''fountain / baking / pop'', ''duck / fold / dollar'',
     ''sleeping / bean / trash'', ''dew / comb / bee'', ''night / wrist / stop'',
     ''loser / throat / spot'']"

definition RAT_ANSWERS :: "string list" where
  "RAT_ANSWERS = [''cheese'', ''ice'', ''chair'', ''boat'', ''soda'', ''bill'', ''bag'', ''honey'',
     ''watch'', ''sore'']"

section \<open>Tk timers and the marker sender\<close>

text \<open>
  \<open>root.after(ms, f)\<close> registers a single-shot callback and returns a fresh identifier;
  \<open>root.after_cancel(id)\<close> removes it, and does nothing when it is no longer pending.
\<close>

definition after :: "nat \<Rightarrow> timer_cb \<Rightarrow> app \<Rightarrow> nat \<times> app" where
  "after ms cb s =
     (next_timer s, s\<lparr>timers := timers s @ [(next_timer s, ms, cb)], next_timer := next_timer s + 1\<rparr>)"

definition after_cancel :: "nat \<Rightarrow> app \<Rightarrow> app" where
  "after_cancel tid s = s\<lparr>timers := filter (\<lambda>t. fst t \<noteq> tid) (timers s)\<rparr>"

text \<open>
  \<open>ExperimentApp.send_marker\<close>. A failing push is caught and the message is printed in
  every case, so the message always joins \<open>out\<close>.
\<close>

definition send_marker :: "string \<Rightarrow> app \<Rightarrow> app" where
  "send_marker label s =
     (let pid = (case player_id s of None \<Rightarrow> ''NA'' | Some p \<Rightarrow> if p = [] then ''NA'' else p);
          msg = ''Player'' @ pid @ ''_'' @ label
      in s\<lparr>out := out s @ [msg]\<rparr>)"

section \<open>Message screens\<close>

text \<open>
  Drawing is left out: a screen is modelled by what it stores and binds.
  \<open>center_message_screen\<close> stores \<open>on_next\<close> in \<open>_last_on_next\<close> and binds Return to it.
\<close>

definition center_message_screen :: "callback \<Rightarrow> app \<Rightarrow> app" where
  "center_message_screen on_next s = s\<lparr>last_on_next := Some on_next, return_binding := Some on_next\<rparr>"

definition show_intro :: "app \<Rightarrow> app" where
  "show_intro s = center_message_screen CB_show_connections_instructions s"

definition show_connections_instructions :: "app \<Rightarrow> app" where
  "show_connections_instructions s = center_message_screen CB_start_connections_game s"

definition show_rat_instructions :: "app \<Rightarrow> app" where
  "show_rat_instructions s = center_message_screen CB_start_rat_task s"

definition show_congratulations :: "app \<Rightarrow> app" where
  "show_congratulations s = center_message_screen CB_show_post_questions s"

definition final_thanks_and_exit :: "app \<Rightarrow> app" where
  "final_thanks_and_exit s = center_message_screen CB_destroy (send_marker ''PostSurvey_End'' s)"

text \<open>The closure \<open>submit\<close> of \<open>show_player_id_screen\<close>.\<close>

definition submit :: "app \<Rightarrow> app" where
  "submit s =
     (let pid = strip (entry_text s)
      in if pid = [] then s
         else show_intro (send_marker ''Session_Start'' (s\<lparr>player_id := Some pid\<rparr>)))"


section \<open>ConnectionsGame\<close>

text \<open>
  The constructor and \<open>start_new_puzzle\<close>. \<open>drawn\<close> is what \<open>random.sample\<close>, the
  flattening and \<open>random.shuffle\<close> produced: the (text, group) pairs in tile order. The
  puzzle's marker goes through \<open>on_marker\<close>, which is \<open>ExperimentApp.send_marker\<close>.
  A method takes the object and the state of the process and returns both.
\<close>

definition ConnectionsGame_init :: "nat \<Rightarrow> (string \<times> string) list \<Rightarrow> app \<Rightarrow> ConnectionsGame \<times> app" where
  "ConnectionsGame_init pidx drawn s =
     (\<lparr>puzzle_index = pidx, selected = [], found_groups = 0, guess_count = 0,
       tiles = map (\<lambda>(m, g). \<lparr>tile_text = m, tile_group = g, matched = False\<rparr>) drawn\<rparr>,
      send_marker (Connections_Start pidx) s)"

definition deselect_all :: "ConnectionsGame \<Rightarrow> ConnectionsGame" where
  "deselect_all g = g\<lparr>selected := []\<rparr>"

text \<open>The loop \<open>for idx in self.selected: self.tiles[idx]["matched"] = True\<close>.\<close>

fun mark_matched :: "nat list \<Rightarrow> tile list \<Rightarrow> tile list" where
  "mark_matched [] ts = ts"
| "mark_matched (i # is) ts = mark_matched is (ts[i := (ts ! i)\<lparr>matched := True\<rparr>])"

text \<open>
  \<open>check_selection\<close>. Reading \<open>self.tiles[i]\<close> out of range, or \<open>groups[0]\<close> of an empty
  selection, raises IndexError after the counter was incremented; Tk reports an exception
  of a callback and goes on, so the method ends there with the state it had reached.
  \<open>flash_correct_group\<close> only recolours buttons; the events that its \<open>parent.update()\<close>
  could let in during the flash are not modelled.
\<close>

definition check_selection :: "ConnectionsGame \<Rightarrow> app \<Rightarrow> ConnectionsGame \<times> app" where
  "check_selection g s =
     (let g1 = g\<lparr>guess_count := guess_count g + 1\<rparr>
      in if selected g1 = [] \<or> list_ex (\<lambda>i. length (tiles g1) \<le> i) (selected g1) then (g1, s)
         else
           let groups = map (\<lambda>i. tile_group (tiles g1 ! i)) (selected g1);
               is_correct = list_all (\<lambda>x. x = hd groups) groups
           in if is_correct then
                let g2 = g1\<lparr>tiles := mark_matched (selected g1) (tiles g1)\<rparr>;
                    s1 = send_marker (Connections_Guess_Correct (puzzle_index g2) (guess_count g2)) s;
                    s2 = send_marker (Connections_End (puzzle_index g2)) s1;
                    (tid, s3) = after 2500 T_on_connections_puzzle_complete s2
                in (g2\<lparr>selected := []\<rparr>, s3)
              else
                (g1\<lparr>selected := []\<rparr>,
                 send_marker (Connections_Guess_Incorrect (puzzle_index g1) (guess_count g1)) s))"

text \<open>
  \<open>toggle_tile\<close>, in two parts: \<open>pick_tile\<close> is the selecting or deselecting, after which
  a selection of four is checked. An index with no tile raises IndexError at the first
  statement, before anything changed.
\<close>

definition pick_tile :: "nat \<Rightarrow> ConnectionsGame \<Rightarrow> ConnectionsGame" where
  "pick_tile idx g =
     (if idx \<in> set (selected g) then g\<lparr>selected := remove1 idx (selected g)\<rparr>
      else if length (selected g) < 4 then g\<lparr>selected := selected g @ [idx]\<rparr>
      else g)"

definition toggle_tile :: "nat \<Rightarrow> ConnectionsGame \<Rightarrow> app \<Rightarrow> ConnectionsGame \<times> app" where
  "toggle_tile idx g s =
     (if length (tiles g) \<le> idx then (g, s)
      else if matched (tiles g ! idx) then (g, s)
      else
        let g1 = pick_tile idx g
        in if length (selected g1) = 4 then check_selection g1 s else (g1, s))"

section \<open>PostQuestionnaire\<close>

text \<open>
  \<open>show_current\<close> ends the survey through \<open>on_complete\<close>, which is
  \<open>ExperimentApp.final_thanks_and_exit\<close>, or hooks \<open>skip_current\<close> into
  \<open>app._last_on_next\<close>. The attribute \<open>index\<close> is \<open>q_index\<close> here, the name \<open>index\<close>
  being taken by \<open>RATGame\<close>.
\<close>

definition show_current :: "PostQuestionnaire \<Rightarrow> app \<Rightarrow> PostQuestionnaire \<times> app" where
  "show_current q s =
     (if length (questions q) \<le> q_index q then (q, final_thanks_and_exit s)
      else (q, s\<lparr>last_on_next := Some CB_skip_current\<rparr>))"

definition PostQuestionnaire_init :: "app \<Rightarrow> PostQuestionnaire \<times> app" where
  "PostQuestionnaire_init s =
     show_current \<lparr>questions = [''test 1'', ''test 2'', ''test 3'', ''test 4'', ''test 5''], q_index = 0\<rparr> s"

definition record_response :: "nat \<Rightarrow> PostQuestionnaire \<Rightarrow> app \<Rightarrow> PostQuestionnaire \<times> app" where
  "record_response v q s =
     (let qnum = q_index q + 1;
          s1 = send_marker (PostQ_value qnum v) s
      in show_current (q\<lparr>q_index := q_index q + 1\<rparr>) s1)"

definition skip_current :: "PostQuestionnaire \<Rightarrow> app \<Rightarrow> PostQuestionnaire \<times> app" where
  "skip_current q s =
     (if q_index q < length (questions q) then
        let qnum = q_index q + 1;
            s1 = send_marker (PostQ_NoResponse qnum) s
        in show_current (q\<lparr>q_index := q_index q + 1\<rparr>) s1
      else (q, s))"

definition show_post_questions :: "app \<Rightarrow> app" where
  "show_post_questions s =
     (let s1 = send_marker ''PostSurvey_Start'' s;
          (q, s2) = PostQuestionnaire_init s1
      in s2\<lparr>postq := Some q\<rparr>)"


section \<open>RATGame\<close>

text \<open>
  A method of a \<open>RATGame\<close> takes \<open>rid\<close>, the position of the object in the store, which
  stands for the object wherever the method hands a bound method of itself to Tk.
  \<open>_cancel_after(attr_name)\<close> is written out for each of the two handles it is called with.
  An \<open>after\<close> identifier of Tk is a non-empty string, so \<open>if aid:\<close> holds exactly when the
  handle is not \<open>None\<close>. \<open>bind_all\<close> and \<open>unbind_all\<close> set and clear the one Y/N binding of
  the process.
\<close>

definition cancel_after_think :: "RATGame \<Rightarrow> app \<Rightarrow> RATGame \<times> app" where
  "cancel_after_think r s =
     (case think_after_id r of
        None \<Rightarrow> (r, s)
      | Some aid \<Rightarrow> (r\<lparr>think_after_id := None\<rparr>, after_cancel aid s))"

definition cancel_after_rest :: "RATGame \<Rightarrow> app \<Rightarrow> RATGame \<times> app" where
  "cancel_after_rest r s =
     (case rest_after_id r of
        None \<Rightarrow> (r, s)
      | Some aid \<Rightarrow> (r\<lparr>rest_after_id := None\<rparr>, after_cancel aid s))"

definition bind_yes_no_keys :: "nat \<Rightarrow> app \<Rightarrow> app" where
  "bind_yes_no_keys rid s = s\<lparr>yn_bound := Some rid\<rparr>"

definition unbind_yes_no_keys :: "app \<Rightarrow> app" where
  "unbind_yes_no_keys s = s\<lparr>yn_bound := None\<rparr>"

definition reveal_phase :: "nat \<Rightarrow> RATGame \<Rightarrow> app \<Rightarrow> RATGame \<times> app" where
  "reveal_phase rid r s =
     (let (r1, s1) = cancel_after_think r s
      in if phase r1 = Some Rest \<or> phase r1 = Some Done then (r1, s1)
         else (r1\<lparr>phase := Some Reveal, awaiting_yes_no := True\<rparr>, bind_yes_no_keys rid s1))"

definition tick_think :: "nat \<Rightarrow> RATGame \<Rightarrow> app \<Rightarrow> RATGame \<times> app" where
  "tick_think rid r s =
     (if phase r \<noteq> Some Think then (r, s)
      else if think_remaining r > 0 then
        let (aid, s1) = after 1000 (T_tick_think rid) s
        in (r\<lparr>think_remaining := think_remaining r - 1, think_after_id := Some aid\<rparr>, s1)
      else reveal_phase rid r s)"

definition show_think_phase :: "nat \<Rightarrow> RATGame \<Rightarrow> app \<Rightarrow> RATGame \<times> app" where
  "show_think_phase rid r s =
     (let (r1, s1) = cancel_after_think r s;
          (r2, s2) = cancel_after_rest r1 s1;
          s3 = unbind_yes_no_keys s2;
          r3 = r2\<lparr>phase := Some Think, awaiting_yes_no := False, think_remaining := think_seconds r2\<rparr>;
          s4 = send_marker (RAT_Start (index r3 + 1)) s3
      in tick_think rid r3 s4)"

text \<open>\<open>on_complete\<close> of a \<open>RATGame\<close> is \<open>ExperimentApp.show_congratulations\<close>.\<close>

definition start_next_item :: "nat \<Rightarrow> RATGame \<Rightarrow> app \<Rightarrow> RATGame \<times> app" where
  "start_next_item rid r s =
     (let (r1, s1) = cancel_after_think r s;
          (r2, s2) = cancel_after_rest r1 s1
      in if index r2 \<ge> length RAT_PROMPTS then (r2\<lparr>phase := Some Done\<rparr>, show_congratulations s2)
         else show_think_phase rid r2 s2)"

definition tick_rest :: "nat \<Rightarrow> RATGame \<Rightarrow> app \<Rightarrow> RATGame \<times> app" where
  "tick_rest rid r s =
     (if phase r \<noteq> Some Rest then (r, s)
      else if rest_remaining r > 0 then
        let (aid, s1) = after 1000 (T_tick_rest rid) s
        in (r\<lparr>rest_remaining := rest_remaining r - 1, rest_after_id := Some aid\<rparr>, s1)
      else
        let (r1, s1) = cancel_after_rest r s;
            s2 = send_marker (RAT_Rest_End (index r1 + 1)) s1
        in start_next_item rid (r1\<lparr>index := index r1 + 1\<rparr>) s2)"

definition start_rest_phase :: "nat \<Rightarrow> RATGame \<Rightarrow> app \<Rightarrow> RATGame \<times> app" where
  "start_rest_phase rid r s =
     (let s1 = unbind_yes_no_keys s;
          (r1, s2) = cancel_after_think r s1;
          r2 = r1\<lparr>phase := Some Rest, rest_remaining := rest_seconds_default r1\<rparr>;
          s3 = send_marker (RAT_Rest_Start (index r2 + 1)) s2
      in tick_rest rid r2 s3)"

definition on_yes :: "nat \<Rightarrow> RATGame \<Rightarrow> app \<Rightarrow> RATGame \<times> app" where
  "on_yes rid r s =
     (if \<not> (phase r = Some Reveal \<and> awaiting_yes_no r) then (r, s)
      else
        let r1 = r\<lparr>awaiting_yes_no := False\<rparr>;
            s1 = unbind_yes_no_keys s;
            s2 = send_marker (RAT_Response_Y (index r1 + 1)) s1;
            s3 = send_marker (RAT_End (index r1 + 1)) s2
        in start_rest_phase rid r1 s3)"

definition on_no :: "nat \<Rightarrow> RATGame \<Rightarrow> app \<Rightarrow> RATGame \<times> app" where
  "on_no rid r s =
     (if \<not> (phase r = Some Reveal \<and> awaiting_yes_no r) then (r, s)
      else
        let r1 = r\<lparr>awaiting_yes_no := False\<rparr>;
            s1 = unbind_yes_no_keys s;
            s2 = send_marker (RAT_Response_N (index r1 + 1)) s1;
            s3 = send_marker (RAT_End (index r1 + 1)) s2
        in start_rest_phase rid r1 s3)"

definition force_advance :: "nat \<Rightarrow> RATGame \<Rightarrow> app \<Rightarrow> RATGame \<times> app" where
  "force_advance rid r s =
     (if phase r = Some Think then
        let (r1, s1) = cancel_after_think r s in reveal_phase rid r1 s1
      else if phase r = Some Reveal then
        (if awaiting_yes_no r then on_no rid r s else (r, s))
      else if phase r = Some Rest then
        let (r1, s1) = cancel_after_rest r s;
            s2 = send_marker (RAT_Rest_End (index r1 + 1)) s1
        in start_next_item rid (r1\<lparr>index := index r1 + 1\<rparr>) s2
      else (r, s))"

text \<open>
  The constructor. \<open>_think_remaining\<close> and \<open>_rest_remaining\<close> do not exist before the first
  phase sets them and are not read before; they start at 0 here.
\<close>

definition RATGame_init :: "nat \<Rightarrow> app \<Rightarrow> RATGame \<times> app" where
  "RATGame_init rid s =
     start_next_item rid
       \<lparr>index = 0, phase = None, awaiting_yes_no = False, think_seconds = 10,
        rest_seconds_default = 15, think_after_id = None, rest_after_id = None,
        think_remaining = 0, rest_remaining = 0\<rparr> s"


section \<open>ExperimentApp: the Connections stage and its rest\<close>

text \<open>
  Creating a puzzle, as \<open>start_connections_game\<close> and \<open>_end_connections_rest\<close> both do:
  the new object joins the store and \<open>self.conn\<close> refers to it.
\<close>

definition new_connections_game :: "(string \<times> string) list \<Rightarrow> app \<Rightarrow> app" where
  "new_connections_game drawn s =
     (let pidx = connections_puzzles_completed s + 1;
          (g, s1) = ConnectionsGame_init pidx drawn s
      in s1\<lparr>conns := conns s1 @ [g], conn := Some (length (conns s1))\<rparr>)"

definition start_connections_game :: "(string \<times> string) list \<Rightarrow> app \<Rightarrow> app" where
  "start_connections_game drawn s =
     new_connections_game drawn
       (s\<lparr>return_binding := None, last_on_next := None, connections_puzzles_completed := 0\<rparr>)"

definition conn_select_rating :: "nat \<Rightarrow> app \<Rightarrow> app" where
  "conn_select_rating v s =
     (if \<not> conn_rest_active s then s
      else if conn_rating_choice s \<noteq> None then s
      else
        let s1 = s\<lparr>conn_rating_choice := Some v\<rparr>;
            pidx = conn_rest_for_puzzle_index s1
        in send_marker (ConnectionQ_value pidx v) s1)"

definition end_connections_rest :: "(string \<times> string) list \<Rightarrow> app \<Rightarrow> app" where
  "end_connections_rest drawn s =
     (let s1 = (case conn_rest_after_id s of
                  None \<Rightarrow> s
                | Some aid \<Rightarrow> (after_cancel aid s)\<lparr>conn_rest_after_id := None\<rparr>);
          s2 = (if conn_rating_choice s1 = None
                then send_marker (ConnectionQ_NoResponse (conn_rest_for_puzzle_index s1)) s1
                else s1);
          s3 = s2\<lparr>connections_spontaneity := connections_spontaneity s2 @ [conn_rating_choice s2]\<rparr>;
          s4 = s3\<lparr>conn_rest_active := False\<rparr>;
          s5 = send_marker (Connections_Rest_End (conn_rest_for_puzzle_index s4)) s4
      in if connections_puzzles_completed s5 < 15 then new_connections_game drawn s5
         else show_rat_instructions s5)"

definition tick_connections_rest :: "(string \<times> string) list \<Rightarrow> app \<Rightarrow> app" where
  "tick_connections_rest drawn s =
     (if \<not> conn_rest_active s then s
      else if conn_rest_remaining s > 0 then
        let s1 = s\<lparr>conn_rest_remaining := conn_rest_remaining s - 1\<rparr>;
            (aid, s2) = after 1000 T_tick_connections_rest s1
        in s2\<lparr>conn_rest_after_id := Some aid\<rparr>
      else end_connections_rest drawn s)"

definition start_connections_rest :: "(string \<times> string) list \<Rightarrow> nat \<Rightarrow> app \<Rightarrow> app" where
  "start_connections_rest drawn just_finished_index s =
     (let s1 = s\<lparr>conn_rest_active := True, conn_rest_remaining := 15, conn_rating_choice := None,
                conn_rest_for_puzzle_index := Some just_finished_index\<rparr>;
          s2 = send_marker (Connections_Rest_Start just_finished_index) s1;
          s3 = s2\<lparr>last_on_next := Some CB_end_connections_rest\<rparr>
      in tick_connections_rest drawn s3)"

definition on_connections_puzzle_complete :: "(string \<times> string) list \<Rightarrow> app \<Rightarrow> app" where
  "on_connections_puzzle_complete drawn s =
     (let s1 = s\<lparr>connections_puzzles_completed := connections_puzzles_completed s + 1\<rparr>
      in start_connections_rest drawn (connections_puzzles_completed s1) s1)"

section \<open>ExperimentApp: the RAT stage, callbacks and the master skip\<close>

definition start_rat_task :: "app \<Rightarrow> app" where
  "start_rat_task s =
     (let s1 = s\<lparr>return_binding := None, last_on_next := None\<rparr>;
          rid = length (rats s1);
          (r, s2) = RATGame_init rid s1
      in s2\<lparr>rats := rats s2 @ [r], rat := Some rid\<rparr>)"

text \<open>
  Calling a method of a stored object: the object is read from its store, the method runs,
  and the object is written back. No method changes the store of its own class.
\<close>

definition on_rat :: "nat \<Rightarrow> (nat \<Rightarrow> RATGame \<Rightarrow> app \<Rightarrow> RATGame \<times> app) \<Rightarrow> app \<Rightarrow> app" where
  "on_rat rid m s = (let (r, s1) = m rid (rats s ! rid) s in s1\<lparr>rats := (rats s1)[rid := r]\<rparr>)"

definition on_conn :: "nat \<Rightarrow> (ConnectionsGame \<Rightarrow> app \<Rightarrow> ConnectionsGame \<times> app) \<Rightarrow> app \<Rightarrow> app" where
  "on_conn gid m s = (let (g, s1) = m (conns s ! gid) s in s1\<lparr>conns := (conns s1)[gid := g]\<rparr>)"

definition on_postq :: "(PostQuestionnaire \<Rightarrow> app \<Rightarrow> PostQuestionnaire \<times> app) \<Rightarrow> app \<Rightarrow> app" where
  "on_postq m s =
     (case postq s of
        None \<Rightarrow> s
      | Some q \<Rightarrow> (let (q1, s1) = m q s in s1\<lparr>postq := Some q1\<rparr>))"

text \<open>
  Calling a stored callable. \<open>skip_current\<close> is always the bound method of the questionnaire
  that \<open>self.postq\<close> refers to: each new questionnaire hooks its own in its constructor.
  The last screen's callable destroys the window.
\<close>

definition run_callback :: "(string \<times> string) list \<Rightarrow> callback \<Rightarrow> app \<Rightarrow> app" where
  "run_callback drawn cb s =
     (case cb of
        CB_submit \<Rightarrow> submit s
      | CB_show_connections_instructions \<Rightarrow> show_connections_instructions s
      | CB_start_connections_game \<Rightarrow> start_connections_game drawn s
      | CB_start_rat_task \<Rightarrow> start_rat_task s
      | CB_show_post_questions \<Rightarrow> show_post_questions s
      | CB_destroy \<Rightarrow> s\<lparr>destroyed := True\<rparr>
      | CB_end_connections_rest \<Rightarrow> end_connections_rest drawn s
      | CB_skip_current \<Rightarrow> on_postq skip_current s)"

text \<open>
  \<open>_master_skip\<close>. \<open>hasattr(self, "conn") and isinstance(self.conn, ConnectionsGame)\<close> holds
  from the first puzzle on, since \<open>self.conn\<close> is never deleted; the same for \<open>self.rat\<close>
  and \<open>self.postq\<close>.
\<close>

definition master_skip :: "(string \<times> string) list \<Rightarrow> app \<Rightarrow> app" where
  "master_skip drawn s =
     (case last_on_next s of
        Some cb \<Rightarrow> run_callback drawn cb (s\<lparr>last_on_next := None\<rparr>)
      | None \<Rightarrow>
          if conn_rest_active s then end_connections_rest drawn s
          else if conn s \<noteq> None then on_connections_puzzle_complete drawn s
          else (case rat s of
                  Some rid \<Rightarrow> on_rat rid force_advance s
                | None \<Rightarrow> (if postq s \<noteq> None then on_postq skip_current s else s)))"


section \<open>The event loop\<close>

text \<open>
  What the Tk main loop can deliver: a key, a click on a button, an edit of the ID entry, or
  a pending \<open>after\<close> callback coming due. A click names the object whose button it is. Any
  pending callback may be the next to fire, whatever its delay. Which buttons are still on
  screen is not tracked: a click is delivered whenever its object exists. A handler runs
  to its end before the next event, and the calls that only draw are taken not to raise.
  The runs of the window are then among the runs of the model.
\<close>

datatype event =
    Type_ID string
  | Key_Return
  | Key_Period
  | Key_Y
  | Key_N
  | Click_Tile nat nat
  | Click_Deselect nat
  | Click_Rating nat
  | Click_PostQ nat
  | Timer nat

definition run_timer :: "(string \<times> string) list \<Rightarrow> timer_cb \<Rightarrow> app \<Rightarrow> app" where
  "run_timer drawn cb s =
     (case cb of
        T_on_connections_puzzle_complete \<Rightarrow> on_connections_puzzle_complete drawn s
      | T_tick_connections_rest \<Rightarrow> tick_connections_rest drawn s
      | T_tick_think rid \<Rightarrow> on_rat rid tick_think s
      | T_tick_rest rid \<Rightarrow> on_rat rid tick_rest s)"

text \<open>
  One event. \<open>drawn\<close> is the random draw that a puzzle created during this event receives.
  The rating buttons carry the values 1 to 5; the buttons of a questionnaire exist while it
  has a question left; a tile button exists for each tile.
\<close>

definition step :: "(string \<times> string) list \<Rightarrow> event \<Rightarrow> app \<Rightarrow> app" where
  "step drawn ev s =
     (if destroyed s then s
      else case ev of
        Type_ID txt \<Rightarrow> s\<lparr>entry_text := txt\<rparr>
      | Key_Return \<Rightarrow> (case return_binding s of None \<Rightarrow> s | Some cb \<Rightarrow> run_callback drawn cb s)
      | Key_Period \<Rightarrow> master_skip drawn s
      | Key_Y \<Rightarrow> (case yn_bound s of None \<Rightarrow> s | Some rid \<Rightarrow> on_rat rid on_yes s)
      | Key_N \<Rightarrow> (case yn_bound s of None \<Rightarrow> s | Some rid \<Rightarrow> on_rat rid on_no s)
      | Click_Tile gid idx \<Rightarrow>
          (if gid < length (conns s) \<and> idx < length (tiles (conns s ! gid))
           then on_conn gid (toggle_tile idx) s else s)
      | Click_Deselect gid \<Rightarrow>
          (if gid < length (conns s) then on_conn gid (\<lambda>g s. (deselect_all g, s)) s else s)
      | Click_Rating v \<Rightarrow> (if 1 \<le> v \<and> v \<le> 5 then conn_select_rating v s else s)
      | Click_PostQ v \<Rightarrow>
          (case postq s of
             None \<Rightarrow> s
           | Some q \<Rightarrow> if 1 \<le> v \<and> v \<le> 5 \<and> q_index q < length (questions q)
                       then on_postq (record_response v) s else s)
      | Timer aid \<Rightarrow>
          (case find (\<lambda>t. fst t = aid) (timers s) of
             None \<Rightarrow> s
           | Some (_, _, cb) \<Rightarrow> run_timer drawn cb (after_cancel aid s)))"

text \<open>
  The state after \<open>ExperimentApp.__init__\<close>: the Player ID screen, whose \<open>submit\<close> is both
  stored for the master skip and bound to Return.
\<close>

definition init :: app where
  "init = \<lparr>player_id = None, out = [], entry_text = [], connections_puzzles_completed = 0,
           connections_spontaneity = [], last_on_next = Some CB_submit,
           return_binding = Some CB_submit, conn_rest_active = False, conn_rest_remaining = 0,
           conn_rest_after_id = None, conn_rating_choice = None,
           conn_rest_for_puzzle_index = None, conns = [], conn = None, rats = [], rat = None,
           postq = None, yn_bound = None, timers = [], next_timer = 0, destroyed = False\<rparr>"

text \<open>A run: the events in order, each with the draw available to it.\<close>

fun exec :: "((string \<times> string) list \<times> event) list \<Rightarrow> app \<Rightarrow> app" where
  "exec [] s = s"
| "exec ((drawn, ev) # evs) s = exec evs (step drawn ev s)"

section \<open>Properties and sample inputs\<close>


text \<open>
  A draw of sixteen tiles, four groups of four, used by the sample runs, and a puzzle built
  from it with four tiles selected.
\<close>

definition sample_draw :: "(string \<times> string) list" where
  "sample_draw =
     [(''a1'', ''A''), (''a2'', ''A''), (''a3'', ''A''), (''a4'', ''A''),
      (''b1'', ''B''), (''b2'', ''B''), (''b3'', ''B''), (''b4'', ''B''),
      (''c1'', ''C''), (''c2'', ''C''), (''c3'', ''C''), (''c4'', ''C''),
      (''d1'', ''D''), (''d2'', ''D''), (''d3'', ''D''), (''d4'', ''D'')]"




text \<open>
  The full text of a marker of participant \<open>p\<close>, and the labels that are not the end
  marker of a puzzle.
\<close>

definition marker :: "string \<Rightarrow> string \<Rightarrow> string" where
  "marker p l = ''Player'' @ p @ ''_'' @ l"

definition notend :: "string \<Rightarrow> bool" where
  "notend l = (\<forall>i. l \<noteq> Connections_End i)"

text \<open>
  A marker sequence in which an end marker of a puzzle only ever comes as the second half
  of a pair: a correct guess of the same puzzle, then the end marker.
\<close>

inductive paired :: "string \<Rightarrow> string list \<Rightarrow> bool" for p :: string where
  paired_Nil: "paired p []"
| paired_one: "paired p ms \<Longrightarrow> notend l \<Longrightarrow> paired p (ms @ [marker p l])"
| paired_end: "paired p ms \<Longrightarrow>
     paired p (ms @ [marker p (Connections_Guess_Correct i g), marker p (Connections_End i)])"

text \<open>
  What holds of every session once the participant ID was submitted: the ID is set and not
  empty, the markers sent so far are paired, and \<open>submit\<close> is neither stored for the master
  skip nor bound to Return.
\<close>

definition session_inv :: "string \<Rightarrow> app \<Rightarrow> bool" where
  "session_inv p s =
     (player_id s = Some p \<and> p \<noteq> [] \<and> paired p (out s)
      \<and> last_on_next s \<noteq> Some CB_submit \<and> return_binding s \<noteq> Some CB_submit)"

text \<open>
  What holds of every puzzle object between two events, and of every RAT object: the
  constructor's timings, and an object in the reveal phase awaits its answer.
\<close>

definition game_ok :: "ConnectionsGame \<Rightarrow> bool" where
  "game_ok g =
     (length (selected g) < 4 \<and> distinct (selected g)
      \<and> list_all (\<lambda>i. i < length (tiles g)) (selected g)
      \<and> 1 \<le> puzzle_index g \<and> puzzle_index g \<le> 15)"

definition rat_ok :: "RATGame \<Rightarrow> bool" where
  "rat_ok r =
     (think_seconds r = 10 \<and> rest_seconds_default r = 15
      \<and> (phase r = Some Reveal \<longrightarrow> awaiting_yes_no r))"

text \<open>
  The states of a \<open>RATGame\<close> object: what its constructor returns, and what the methods
  that Tk calls (the two ticks, the two keys) and the master skip make of such a state,
  whatever the state of the process around it.
\<close>

inductive rat_state :: "RATGame \<Rightarrow> bool" where
  rs_init: "rat_state (fst (RATGame_init rid s))"
| rs_tick_think: "rat_state r \<Longrightarrow> rat_state (fst (tick_think rid r s))"
| rs_tick_rest: "rat_state r \<Longrightarrow> rat_state (fst (tick_rest rid r s))"
| rs_on_yes: "rat_state r \<Longrightarrow> rat_state (fst (on_yes rid r s))"
| rs_on_no: "rat_state r \<Longrightarrow> rat_state (fst (on_no rid r s))"
| rs_force_advance: "rat_state r \<Longrightarrow> rat_state (fst (force_advance rid r s))"

text \<open>The state while the Player ID screen is shown: nothing was created or sent yet.\<close>

definition before_submit :: "app \<Rightarrow> bool" where
  "before_submit s =
     (player_id s = None \<and> out s = [] \<and> return_binding s = Some CB_submit
      \<and> (last_on_next s = None \<or> last_on_next s = Some CB_submit)
      \<and> \<not> conn_rest_active s \<and> conns s = [] \<and> conn s = None \<and> rats s = [] \<and> rat s = None
      \<and> postq s = None \<and> yn_bound s = None \<and> timers s = [] \<and> \<not> destroyed s)"

definition app_inv :: "app \<Rightarrow> bool" where
  "app_inv s =
     ((before_submit s \<or> (\<exists>p. session_inv p s))
      \<and> list_all game_ok (conns s) \<and> list_all rat_state (rats s))"

text \<open>
  Sample runs, every event with the sample draw. The session opens with the ID \<open>7\<close> typed
  and submitted and two more presses of Return, which start puzzle 1. The first four tiles
  of the sample draw form a group.
\<close>

definition with_draw :: "event list \<Rightarrow> ((string \<times> string) list \<times> event) list" where
  "with_draw evs = map (Pair sample_draw) evs"

definition session_opening :: "event list" where
  "session_opening = [Type_ID ''7'', Key_Return, Key_Return, Key_Return]"

definition first_group :: "event list" where
  "first_group = [Click_Tile 0 0, Click_Tile 0 1, Click_Tile 0 2, Click_Tile 0 3]"

text \<open>Puzzle 1 solved at the first guess; the delayed \<open>on_complete\<close> is still pending.\<close>

definition solved_block_run :: "((string \<times> string) list \<times> event) list" where
  "solved_block_run = with_draw (session_opening @ first_group)"



text \<open>
  A RAT object as its constructor leaves it (item 1, thinking), and the three states that
  three forced advances make of it in turn.
\<close>

definition rat_sample0 :: "RATGame \<times> app" where
  "rat_sample0 = RATGame_init 0 init"

definition rat_sample1 :: "RATGame \<times> app" where
  "rat_sample1 = force_advance 0 (fst rat_sample0) (snd rat_sample0)"

definition rat_sample2 :: "RATGame \<times> app" where
  "rat_sample2 = force_advance 0 (fst rat_sample1) (snd rat_sample1)"

definition rat_sample3 :: "RATGame \<times> app" where
  "rat_sample3 = force_advance 0 (fst rat_sample2) (snd rat_sample2)"

text \<open>Puzzle 1 left by the master skip, and 3 clicked on its rest screen.\<close>

definition rated_rest_run :: "((string \<times> string) list \<times> event) list" where
  "rated_rest_run = with_draw (session_opening @ [Key_Period, Click_Rating 3])"



text \<open>
  Puzzle 1 solved and its rest run out by itself (the completion callback, the first tick
  and fifteen more), so that puzzle 2 is on screen; the same followed by a master skip; and
  puzzle 1 solved, then skipped while its completion callback is pending, which then fires.
\<close>

definition timed_rest_run :: "((string \<times> string) list \<times> event) list" where
  "timed_rest_run = with_draw (session_opening @ first_group @ map Timer [0..<16])"

definition skip_after_timed_rest_run :: "((string \<times> string) list \<times> event) list" where
  "skip_after_timed_rest_run = timed_rest_run @ with_draw [Key_Period]"

definition stale_completion_run :: "((string \<times> string) list \<times> event) list" where
  "stale_completion_run = with_draw (session_opening @ first_group @ [Key_Period, Timer 0])"

section \<open>Helper lemmas\<close>

lemma mark_matched_length [simp]: "length (mark_matched sel ts) = length ts"
  by (induction sel arbitrary: ts) auto



section \<open>Evaluation of a guess\<close>



section \<open>Marker text: digits and separators\<close>


lemma digit_char_digit: "d < 10 \<Longrightarrow> digit_char d \<in> set ''0123456789''"
  unfolding digit_char_def by (rule nth_mem) simp

lemma digit_char_not_sep: "d < 10 \<Longrightarrow> CHR ''_'' \<noteq> digit_char d"
  using digit_char_digit [of d] by auto

lemma str_nat_no_sep: "CHR ''_'' \<notin> set (str_nat n)"
proof (induction n rule: str_nat.induct)
  case (1 n)
  show ?case
  proof (cases "n < 10")
    case True
    then show ?thesis by (subst str_nat.simps) (simp add: digit_char_not_sep)
  next
    case False
    with 1 show ?thesis by (subst str_nat.simps) (simp add: digit_char_not_sep)
  qed
qed

lemma str_opt_nat_no_sep: "CHR ''_'' \<notin> set (str_opt_nat v)"
  by (cases v) (simp_all add: str_opt_nat_def str_nat_no_sep)

lemma sep_split:
  "CHR ''_'' \<notin> set a \<Longrightarrow> CHR ''_'' \<notin> set b \<Longrightarrow> a @ CHR ''_'' # r = b @ CHR ''_'' # r'
   \<Longrightarrow> a = b \<and> r = r'"
proof (induction a arbitrary: b)
  case Nil
  then show ?case by (cases b) auto
next
  case (Cons x a)
  then show ?case by (cases b) auto
qed

lemma notend_num:
  "CHR ''_'' \<notin> set a \<Longrightarrow> r \<noteq> ''End'' \<Longrightarrow> notend (''Connections'' @ a @ CHR ''_'' # r)"
  unfolding notend_def Connections_End_def
  using sep_split [OF _ str_nat_no_sep] by fastforce

lemma notend_labels [simp]:
  "notend ''Session_Start''" "notend ''PostSurvey_Start''" "notend ''PostSurvey_End''"
  "notend (Connections_Start i)" "notend (Connections_Guess_Correct i g)"
  "notend (Connections_Guess_Incorrect i g)" "notend (Connections_Rest_Start i)"
  "notend (Connections_Rest_End x)" "notend (ConnectionQ_value x v)"
  "notend (ConnectionQ_NoResponse x)" "notend (RAT_Start i)" "notend (RAT_Response_Y i)"
  "notend (RAT_Response_N i)" "notend (RAT_End i)" "notend (RAT_Rest_Start i)"
  "notend (RAT_Rest_End i)" "notend (PostQ_value q v)" "notend (PostQ_NoResponse q)"
proof -
  show "notend ''Session_Start''" "notend ''PostSurvey_Start''" "notend ''PostSurvey_End''"
    "notend (ConnectionQ_value x v)" "notend (ConnectionQ_NoResponse x)" "notend (RAT_Start i)"
    "notend (RAT_Response_Y i)" "notend (RAT_Response_N i)" "notend (RAT_End i)"
    "notend (RAT_Rest_Start i)" "notend (RAT_Rest_End i)" "notend (PostQ_value q v)"
    "notend (PostQ_NoResponse q)"
    by (simp_all add: notend_def Connections_End_def ConnectionQ_value_def
        ConnectionQ_NoResponse_def RAT_Start_def RAT_Response_Y_def RAT_Response_N_def
        RAT_End_def RAT_Rest_Start_def RAT_Rest_End_def PostQ_value_def PostQ_NoResponse_def)
  show "notend (Connections_Start i)"
    unfolding Connections_Start_def using notend_num [OF str_nat_no_sep, of "''Start''" i] by simp
  show "notend (Connections_Rest_Start i)"
    unfolding Connections_Rest_Start_def
    using notend_num [OF str_nat_no_sep, of "''Rest_Start''" i] by simp
  show "notend (Connections_Rest_End x)"
    unfolding Connections_Rest_End_def
    using notend_num [OF str_opt_nat_no_sep, of "''Rest_End''" x] by simp
  show "notend (Connections_Guess_Correct i g)"
    unfolding Connections_Guess_Correct_def
    using notend_num [OF str_nat_no_sep, of "''Guess'' @ str_nat g @ ''_Correct''" i] by simp
  show "notend (Connections_Guess_Incorrect i g)"
    unfolding Connections_Guess_Incorrect_def
    using notend_num [OF str_nat_no_sep, of "''Guess'' @ str_nat g @ ''_Incorrect''" i] by simp
qed

section \<open>What every handler preserves\<close>

lemma session_inv_update [simp]:
  "session_inv p (s\<lparr>entry_text := a1\<rparr>) = session_inv p s"
  "session_inv p (s\<lparr>connections_puzzles_completed := a2\<rparr>) = session_inv p s"
  "session_inv p (s\<lparr>connections_spontaneity := a3\<rparr>) = session_inv p s"
  "session_inv p (s\<lparr>conn_rest_active := a4\<rparr>) = session_inv p s"
  "session_inv p (s\<lparr>conn_rest_remaining := a5\<rparr>) = session_inv p s"
  "session_inv p (s\<lparr>conn_rest_after_id := a6\<rparr>) = session_inv p s"
  "session_inv p (s\<lparr>conn_rating_choice := a7\<rparr>) = session_inv p s"
  "session_inv p (s\<lparr>conn_rest_for_puzzle_index := a8\<rparr>) = session_inv p s"
  "session_inv p (s\<lparr>conns := a9\<rparr>) = session_inv p s"
  "session_inv p (s\<lparr>conn := a10\<rparr>) = session_inv p s"
  "session_inv p (s\<lparr>rats := a11\<rparr>) = session_inv p s"
  "session_inv p (s\<lparr>rat := a12\<rparr>) = session_inv p s"
  "session_inv p (s\<lparr>postq := a13\<rparr>) = session_inv p s"
  "session_inv p (s\<lparr>yn_bound := a14\<rparr>) = session_inv p s"
  "session_inv p (s\<lparr>timers := a15\<rparr>) = session_inv p s"
  "session_inv p (s\<lparr>next_timer := a16\<rparr>) = session_inv p s"
  "session_inv p (s\<lparr>destroyed := a17\<rparr>) = session_inv p s"
  by (simp_all add: session_inv_def)

lemma session_inv_slot [simp]:
  "session_inv p s \<Longrightarrow> x \<noteq> Some CB_submit \<Longrightarrow> session_inv p (s\<lparr>last_on_next := x\<rparr>)"
  "session_inv p s \<Longrightarrow> x \<noteq> Some CB_submit \<Longrightarrow> session_inv p (s\<lparr>return_binding := x\<rparr>)"
  by (simp_all add: session_inv_def)

lemma marker_text: "player_id s = Some p \<Longrightarrow> p \<noteq> [] \<Longrightarrow>
  send_marker l s = s\<lparr>out := out s @ [marker p l]\<rparr>"
  by (simp add: send_marker_def marker_def)

lemma session_inv_send [simp]:
  "session_inv p s \<Longrightarrow> notend l \<Longrightarrow> session_inv p (send_marker l s)"
  by (auto simp: session_inv_def marker_text intro: paired_one)

lemma session_inv_send_end [simp]:
  "session_inv p s \<Longrightarrow>
   session_inv p (send_marker (Connections_End i) (send_marker (Connections_Guess_Correct i g) s))"
  using paired_end [of p "out s" i g] by (simp add: session_inv_def marker_text)

lemma after_inv [simp]: "session_inv p s \<Longrightarrow> session_inv p (snd (after ms cb s))"
  by (simp add: after_def)

lemma after_cancel_inv [simp]: "session_inv p s \<Longrightarrow> session_inv p (after_cancel aid s)"
  by (simp add: after_cancel_def)

lemma screens_inv [simp]:
  "session_inv p s \<Longrightarrow> cb \<noteq> CB_submit \<Longrightarrow> session_inv p (center_message_screen cb s)"
  "session_inv p s \<Longrightarrow> session_inv p (show_intro s)"
  "session_inv p s \<Longrightarrow> session_inv p (show_connections_instructions s)"
  "session_inv p s \<Longrightarrow> session_inv p (show_rat_instructions s)"
  "session_inv p s \<Longrightarrow> session_inv p (show_congratulations s)"
  "session_inv p s \<Longrightarrow> session_inv p (final_thanks_and_exit s)"
  by (simp_all add: center_message_screen_def show_intro_def show_connections_instructions_def
      show_rat_instructions_def show_congratulations_def final_thanks_and_exit_def)

lemma game_methods_inv [simp]:
  "session_inv p s \<Longrightarrow> session_inv p (snd (ConnectionsGame_init i d s))"
  "session_inv p s \<Longrightarrow> session_inv p (snd (check_selection g s))"
  "session_inv p s \<Longrightarrow> session_inv p (snd (toggle_tile idx g s))"
  by (simp_all add: ConnectionsGame_init_def check_selection_def toggle_tile_def Let_def split_def)

lemma postq_methods_inv [simp]:
  "session_inv p s \<Longrightarrow> session_inv p (snd (show_current q s))"
  "session_inv p s \<Longrightarrow> session_inv p (snd (PostQuestionnaire_init s))"
  "session_inv p s \<Longrightarrow> session_inv p (snd (record_response v q s))"
  "session_inv p s \<Longrightarrow> session_inv p (snd (skip_current q s))"
  "session_inv p s \<Longrightarrow> session_inv p (show_post_questions s)"
  by (simp_all add: show_current_def PostQuestionnaire_init_def record_response_def
      skip_current_def show_post_questions_def Let_def split_def)


lemma rat_cancel_inv [simp]:
  "session_inv p s \<Longrightarrow> session_inv p (snd (cancel_after_think r s))"
  "session_inv p s \<Longrightarrow> session_inv p (snd (cancel_after_rest r s))"
  "session_inv p s \<Longrightarrow> session_inv p (bind_yes_no_keys rid s)"
  "session_inv p s \<Longrightarrow> session_inv p (unbind_yes_no_keys s)"
  by (simp_all add: cancel_after_think_def cancel_after_rest_def bind_yes_no_keys_def
      unbind_yes_no_keys_def split: option.splits)

lemma reveal_phase_inv [simp]:
  "session_inv p s \<Longrightarrow> session_inv p (snd (reveal_phase rid r s))"
  by (simp add: reveal_phase_def Let_def split_def)

lemma tick_think_inv [simp]:
  "session_inv p s \<Longrightarrow> session_inv p (snd (tick_think rid r s))"
  by (simp add: tick_think_def Let_def split_def)

lemma show_think_phase_inv [simp]:
  "session_inv p s \<Longrightarrow> session_inv p (snd (show_think_phase rid r s))"
  by (simp add: show_think_phase_def Let_def split_def)

lemma start_next_item_inv [simp]:
  "session_inv p s \<Longrightarrow> session_inv p (snd (start_next_item rid r s))"
  by (simp add: start_next_item_def Let_def split_def)

lemma tick_rest_inv [simp]:
  "session_inv p s \<Longrightarrow> session_inv p (snd (tick_rest rid r s))"
  by (simp add: tick_rest_def Let_def split_def)

lemma start_rest_phase_inv [simp]:
  "session_inv p s \<Longrightarrow> session_inv p (snd (start_rest_phase rid r s))"
  by (simp add: start_rest_phase_def Let_def split_def)

lemma rat_keys_inv [simp]:
  "session_inv p s \<Longrightarrow> session_inv p (snd (on_yes rid r s))"
  "session_inv p s \<Longrightarrow> session_inv p (snd (on_no rid r s))"
  by (simp_all add: on_yes_def on_no_def Let_def split_def)

lemma force_advance_inv [simp]:
  "session_inv p s \<Longrightarrow> session_inv p (snd (force_advance rid r s))"
  by (simp add: force_advance_def Let_def split_def)

lemma RATGame_init_inv [simp]:
  "session_inv p s \<Longrightarrow> session_inv p (snd (RATGame_init rid s))"
  by (simp add: RATGame_init_def)

lemma new_connections_game_inv [simp]:
  "session_inv p s \<Longrightarrow> session_inv p (new_connections_game d s)"
  by (simp add: new_connections_game_def Let_def split_def)

lemma start_connections_game_inv [simp]:
  "session_inv p s \<Longrightarrow> session_inv p (start_connections_game d s)"
  by (simp add: start_connections_game_def)

lemma conn_select_rating_inv [simp]:
  "session_inv p s \<Longrightarrow> session_inv p (conn_select_rating v s)"
  by (simp add: conn_select_rating_def Let_def)

lemma end_connections_rest_inv [simp]:
  "session_inv p s \<Longrightarrow> session_inv p (end_connections_rest d s)"
  by (simp add: end_connections_rest_def Let_def split: option.splits)

lemma tick_connections_rest_inv [simp]:
  "session_inv p s \<Longrightarrow> session_inv p (tick_connections_rest d s)"
  by (simp add: tick_connections_rest_def Let_def split_def)

lemma start_connections_rest_inv [simp]:
  "session_inv p s \<Longrightarrow> session_inv p (start_connections_rest d i s)"
  by (simp add: start_connections_rest_def Let_def)

lemma on_connections_puzzle_complete_inv [simp]:
  "session_inv p s \<Longrightarrow> session_inv p (on_connections_puzzle_complete d s)"
  by (simp add: on_connections_puzzle_complete_def Let_def)

lemma start_rat_task_inv [simp]:
  "session_inv p s \<Longrightarrow> session_inv p (start_rat_task s)"
  by (simp add: start_rat_task_def Let_def split_def)

lemma on_object_inv:
  "(\<And>r s. session_inv p s \<Longrightarrow> session_inv p (snd (m rid r s))) \<Longrightarrow> session_inv p s
   \<Longrightarrow> session_inv p (on_rat rid m s)"
  "(\<And>g s. session_inv p s \<Longrightarrow> session_inv p (snd (n g s))) \<Longrightarrow> session_inv p s
   \<Longrightarrow> session_inv p (on_conn gid n s)"
  "(\<And>q s. session_inv p s \<Longrightarrow> session_inv p (snd (k q s))) \<Longrightarrow> session_inv p s
   \<Longrightarrow> session_inv p (on_postq k s)"
  by (simp_all add: on_rat_def on_conn_def on_postq_def Let_def split_def split: option.splits)

lemma run_callback_inv:
  "session_inv p s \<Longrightarrow> cb \<noteq> CB_submit \<Longrightarrow> session_inv p (run_callback d cb s)"
  by (cases cb) (simp_all add: run_callback_def on_object_inv)

lemma master_skip_inv:
  "session_inv p s \<Longrightarrow> session_inv p (master_skip d s)"
  by (auto simp: master_skip_def on_object_inv session_inv_def [of p s]
      intro!: run_callback_inv split: option.splits)

lemma run_timer_inv:
  "session_inv p s \<Longrightarrow> session_inv p (run_timer d cb s)"
  by (cases cb) (simp_all add: run_timer_def on_object_inv)

lemma step_session_inv:
  "session_inv p s \<Longrightarrow> session_inv p (step d ev s)"
  by (cases ev)
     (auto simp: step_def on_object_inv session_inv_def [of p s] deselect_all_def
       intro!: run_callback_inv run_timer_inv master_skip_inv split: option.splits)


lemma frame_basic [simp]:
  "conns (send_marker l s) = conns s" "rats (send_marker l s) = rats s"
  "conns (snd (after ms tcb s)) = conns s" "rats (snd (after ms tcb s)) = rats s"
  "conns (after_cancel aid s) = conns s" "rats (after_cancel aid s) = rats s"
  "conns (center_message_screen cb s) = conns s" "rats (center_message_screen cb s) = rats s"
  by (simp_all add: send_marker_def after_def after_cancel_def center_message_screen_def)

lemma frame_screens [simp]:
  "conns (show_intro s) = conns s" "rats (show_intro s) = rats s"
  "conns (show_connections_instructions s) = conns s" "rats (show_connections_instructions s) = rats s"
  "conns (show_rat_instructions s) = conns s" "rats (show_rat_instructions s) = rats s"
  "conns (show_congratulations s) = conns s" "rats (show_congratulations s) = rats s"
  "conns (final_thanks_and_exit s) = conns s" "rats (final_thanks_and_exit s) = rats s"
  "conns (submit s) = conns s" "rats (submit s) = rats s"
  by (simp_all add: show_intro_def show_connections_instructions_def show_rat_instructions_def
      show_congratulations_def final_thanks_and_exit_def submit_def Let_def)

lemma frame_game [simp]:
  "conns (snd (ConnectionsGame_init i d s)) = conns s" "rats (snd (ConnectionsGame_init i d s)) = rats s"
  "conns (snd (check_selection g s)) = conns s" "rats (snd (check_selection g s)) = rats s"
  "conns (snd (toggle_tile idx g s)) = conns s" "rats (snd (toggle_tile idx g s)) = rats s"
  by (simp_all add: ConnectionsGame_init_def check_selection_def toggle_tile_def Let_def split_def)

lemma frame_postq [simp]:
  "conns (snd (show_current q s)) = conns s" "rats (snd (show_current q s)) = rats s"
  "conns (snd (PostQuestionnaire_init s)) = conns s" "rats (snd (PostQuestionnaire_init s)) = rats s"
  "conns (snd (record_response v q s)) = conns s" "rats (snd (record_response v q s)) = rats s"
  "conns (snd (skip_current q s)) = conns s" "rats (snd (skip_current q s)) = rats s"
  "conns (show_post_questions s) = conns s" "rats (show_post_questions s) = rats s"
  by (simp_all add: show_current_def PostQuestionnaire_init_def record_response_def
      skip_current_def show_post_questions_def Let_def split_def)

lemma frame_rat_cancel [simp]:
  "conns (snd (cancel_after_think r s)) = conns s" "rats (snd (cancel_after_think r s)) = rats s"
  "conns (snd (cancel_after_rest r s)) = conns s" "rats (snd (cancel_after_rest r s)) = rats s"
  "conns (bind_yes_no_keys rid s) = conns s" "rats (bind_yes_no_keys rid s) = rats s"
  "conns (unbind_yes_no_keys s) = conns s" "rats (unbind_yes_no_keys s) = rats s"
  by (simp_all add: cancel_after_think_def cancel_after_rest_def bind_yes_no_keys_def
      unbind_yes_no_keys_def split: option.splits)

lemma frame_reveal_phase [simp]:
  "conns (snd (reveal_phase rid r s)) = conns s" "rats (snd (reveal_phase rid r s)) = rats s"
  by (simp_all add: reveal_phase_def Let_def split_def)

lemma frame_tick_think [simp]:
  "conns (snd (tick_think rid r s)) = conns s" "rats (snd (tick_think rid r s)) = rats s"
  by (simp_all add: tick_think_def Let_def split_def)

lemma frame_show_think_phase [simp]:
  "conns (snd (show_think_phase rid r s)) = conns s" "rats (snd (show_think_phase rid r s)) = rats s"
  by (simp_all add: show_think_phase_def Let_def split_def)

lemma frame_start_next_item [simp]:
  "conns (snd (start_next_item rid r s)) = conns s" "rats (snd (start_next_item rid r s)) = rats s"
  by (simp_all add: start_next_item_def Let_def split_def)

lemma frame_tick_rest [simp]:
  "conns (snd (tick_rest rid r s)) = conns s" "rats (snd (tick_rest rid r s)) = rats s"
  by (simp_all add: tick_rest_def Let_def split_def)

lemma frame_start_rest_phase [simp]:
  "conns (snd (start_rest_phase rid r s)) = conns s" "rats (snd (start_rest_phase rid r s)) = rats s"
  by (simp_all add: start_rest_phase_def Let_def split_def)

lemma frame_rat_keys [simp]:
  "conns (snd (on_yes rid r s)) = conns s" "rats (snd (on_yes rid r s)) = rats s"
  "conns (snd (on_no rid r s)) = conns s" "rats (snd (on_no rid r s)) = rats s"
  by (simp_all add: on_yes_def on_no_def Let_def split_def)

lemma frame_force_advance [simp]:
  "conns (snd (force_advance rid r s)) = conns s" "rats (snd (force_advance rid r s)) = rats s"
  by (simp_all add: force_advance_def Let_def split_def)

lemma frame_RATGame_init [simp]:
  "conns (snd (RATGame_init rid s)) = conns s" "rats (snd (RATGame_init rid s)) = rats s"
  by (simp_all add: RATGame_init_def)

lemma frame_conn_select_rating [simp]:
  "conns (conn_select_rating v s) = conns s" "rats (conn_select_rating v s) = rats s"
  by (simp_all add: conn_select_rating_def Let_def)

lemma frame_rats_connections [simp]:
  "rats (new_connections_game d s) = rats s"
  "rats (start_connections_game d s) = rats s"
  "rats (end_connections_rest d s) = rats s"
  "rats (tick_connections_rest d s) = rats s"
  "rats (start_connections_rest d i s) = rats s"
  "rats (on_connections_puzzle_complete d s) = rats s"
  by (simp_all add: new_connections_game_def start_connections_game_def end_connections_rest_def
      tick_connections_rest_def start_connections_rest_def on_connections_puzzle_complete_def
      Let_def split_def split: option.splits)

lemma frame_conns_start_rat_task [simp]: "conns (start_rat_task s) = conns s"
  by (simp add: start_rat_task_def Let_def split_def)


lemma list_all_update: "list_all P xs \<Longrightarrow> P x \<Longrightarrow> list_all P (xs[i := x])"
  using set_update_subset_insert [of xs i x] by (auto simp: list_all_iff)

lemma game_ok_init: "1 \<le> i \<Longrightarrow> i \<le> 15 \<Longrightarrow> game_ok (fst (ConnectionsGame_init i d s))"
  by (simp add: game_ok_def ConnectionsGame_init_def)

lemma game_ok_pick:
  assumes "game_ok g" "idx < length (tiles g)"
  shows "length (selected (pick_tile idx g)) \<le> 4" "distinct (selected (pick_tile idx g))"
    "list_all (\<lambda>i. i < length (tiles g)) (selected (pick_tile idx g))"
    "tiles (pick_tile idx g) = tiles g" "puzzle_index (pick_tile idx g) = puzzle_index g"
  using assms by (auto simp: game_ok_def pick_tile_def list_all_iff length_remove1 dest: notin_set_remove1)

lemma game_ok_check:
  assumes "length (selected g) = 4" "list_all (\<lambda>i. i < length (tiles g)) (selected g)"
    "1 \<le> puzzle_index g" "puzzle_index g \<le> 15"
  shows "game_ok (fst (check_selection g s))"
proof -
  from assms(1) have ne: "selected g \<noteq> []" by auto
  from assms(2) have nex: "\<not> list_ex (\<lambda>i. length (tiles g) \<le> i) (selected g)"
    by (auto simp: list_ex_iff list_all_iff)
  show ?thesis using ne nex assms(3,4)
    by (simp add: check_selection_def Let_def split_def game_ok_def)
qed

lemma game_ok_toggle:
  assumes "game_ok g" "idx < length (tiles g)"
  shows "game_ok (fst (toggle_tile idx g s))"
proof (cases "matched (tiles g ! idx)")
  case True
  with assms show ?thesis by (simp add: toggle_tile_def)
next
  case False
  show ?thesis
  proof (cases "length (selected (pick_tile idx g)) = 4")
    case True
    have "game_ok (fst (check_selection (pick_tile idx g) s))"
      using True game_ok_pick [OF assms] assms(1) by (intro game_ok_check) (simp_all add: game_ok_def)
    with True False assms show ?thesis by (simp add: toggle_tile_def Let_def)
  next
    case F4: False
    with game_ok_pick [OF assms] assms(1) have "game_ok (pick_tile idx g)"
      by (simp add: game_ok_def)
    with F4 False assms show ?thesis by (simp add: toggle_tile_def Let_def)
  qed
qed

lemma game_ok_deselect: "game_ok g \<Longrightarrow> game_ok (deselect_all g)"
  by (simp add: game_ok_def deselect_all_def)

lemma games_new:
  "list_all game_ok (conns s) \<Longrightarrow> connections_puzzles_completed s < 15
   \<Longrightarrow> list_all game_ok (conns (new_connections_game d s))"
  by (simp add: new_connections_game_def Let_def split_def game_ok_init)

lemma completed_frame [simp]:
  "connections_puzzles_completed (send_marker l s) = connections_puzzles_completed s"
  "connections_puzzles_completed (after_cancel aid s) = connections_puzzles_completed s"
  by (simp_all add: send_marker_def after_cancel_def)

lemma games_start: "list_all game_ok (conns s) \<Longrightarrow> list_all game_ok (conns (start_connections_game d s))"
  by (simp add: start_connections_game_def games_new)

lemma games_end_rest: "list_all game_ok (conns s) \<Longrightarrow> list_all game_ok (conns (end_connections_rest d s))"
  by (auto simp: end_connections_rest_def Let_def intro!: games_new split: option.splits)

lemma games_tick_rest: "list_all game_ok (conns s) \<Longrightarrow> list_all game_ok (conns (tick_connections_rest d s))"
  by (simp add: tick_connections_rest_def Let_def split_def games_end_rest)

lemma games_start_rest: "list_all game_ok (conns s) \<Longrightarrow> list_all game_ok (conns (start_connections_rest d i s))"
  by (simp add: start_connections_rest_def Let_def games_tick_rest)

lemma games_complete:
  "list_all game_ok (conns s) \<Longrightarrow> list_all game_ok (conns (on_connections_puzzle_complete d s))"
  by (simp add: on_connections_puzzle_complete_def Let_def games_start_rest)

lemma games_on_rat:
  "(\<And>r s. conns (snd (m rid r s)) = conns s) \<Longrightarrow> conns (on_rat rid m s) = conns s"
  by (simp add: on_rat_def Let_def split_def)

lemma games_on_postq:
  "(\<And>q s. conns (snd (k q s)) = conns s) \<Longrightarrow> conns (on_postq k s) = conns s"
  by (simp add: on_postq_def Let_def split_def split: option.splits)

lemma rats_on_conn:
  "(\<And>g s. rats (snd (n g s)) = rats s) \<Longrightarrow> rats (on_conn gid n s) = rats s"
  by (simp add: on_conn_def Let_def split_def)

lemma rats_on_postq:
  "(\<And>q s. rats (snd (k q s)) = rats s) \<Longrightarrow> rats (on_postq k s) = rats s"
  by (simp add: on_postq_def Let_def split_def split: option.splits)

lemma games_run_callback:
  "list_all game_ok (conns s) \<Longrightarrow> list_all game_ok (conns (run_callback d cb s))"
  by (cases cb) (simp_all add: run_callback_def games_start games_end_rest games_on_postq)

lemma games_master_skip:
  "list_all game_ok (conns s) \<Longrightarrow> list_all game_ok (conns (master_skip d s))"
  by (auto simp: master_skip_def games_end_rest games_complete games_on_rat games_on_postq
      intro!: games_run_callback split: option.splits)

lemma games_run_timer:
  "list_all game_ok (conns s) \<Longrightarrow> list_all game_ok (conns (run_timer d cb s))"
  by (cases cb) (simp_all add: run_timer_def games_complete games_tick_rest games_on_rat)

lemma games_on_conn_toggle:
  "list_all game_ok (conns s) \<Longrightarrow> gid < length (conns s) \<Longrightarrow> idx < length (tiles (conns s ! gid))
   \<Longrightarrow> list_all game_ok (conns (on_conn gid (toggle_tile idx) s))"
proof -
  assume a: "list_all game_ok (conns s)" "gid < length (conns s)"
    "idx < length (tiles (conns s ! gid))"
  then have "game_ok (conns s ! gid)" by (simp add: list_all_length)
  with a show ?thesis
    by (simp add: on_conn_def Let_def split_def list_all_update game_ok_toggle)
qed

lemma games_on_conn_deselect:
  "list_all game_ok (conns s) \<Longrightarrow> gid < length (conns s)
   \<Longrightarrow> list_all game_ok (conns (on_conn gid (\<lambda>g s. (deselect_all g, s)) s))"
proof -
  assume a: "list_all game_ok (conns s)" "gid < length (conns s)"
  then have "game_ok (conns s ! gid)" by (simp add: list_all_length)
  with a show ?thesis
    by (simp add: on_conn_def Let_def list_all_update game_ok_deselect)
qed

lemma step_games:
  "list_all game_ok (conns s) \<Longrightarrow> list_all game_ok (conns (step d ev s))"
  by (cases ev)
     (auto simp: step_def games_on_rat games_on_postq games_on_conn_toggle games_on_conn_deselect
       intro!: games_run_callback games_run_timer games_master_skip split: option.splits)


lemma rat_ok_cancel [simp]:
  "rat_ok r \<Longrightarrow> rat_ok (fst (cancel_after_think r s))"
  "rat_ok r \<Longrightarrow> rat_ok (fst (cancel_after_rest r s))"
  by (simp_all add: rat_ok_def cancel_after_think_def cancel_after_rest_def split: option.splits)

lemma rat_timings_cancel [simp]:
  "think_seconds (fst (cancel_after_think r s)) = think_seconds r"
  "rest_seconds_default (fst (cancel_after_think r s)) = rest_seconds_default r"
  "think_seconds (fst (cancel_after_rest r s)) = think_seconds r"
  "rest_seconds_default (fst (cancel_after_rest r s)) = rest_seconds_default r"
  by (simp_all add: cancel_after_think_def cancel_after_rest_def split: option.splits)

lemma rat_timings_ok:
  "think_seconds r = 10 \<Longrightarrow> rest_seconds_default r = 15 \<Longrightarrow> phase r \<noteq> Some Reveal \<Longrightarrow> rat_ok r"
  by (simp add: rat_ok_def)

lemma rat_ok_update [simp]:
  "rat_ok (r\<lparr>index := a1\<rparr>) = rat_ok r"
  "rat_ok (r\<lparr>think_after_id := a2\<rparr>) = rat_ok r"
  "rat_ok (r\<lparr>rest_after_id := a3\<rparr>) = rat_ok r"
  "rat_ok (r\<lparr>think_remaining := a4\<rparr>) = rat_ok r"
  "rat_ok (r\<lparr>rest_remaining := a5\<rparr>) = rat_ok r"
  by (simp_all add: rat_ok_def)

lemma rat_okD: "rat_ok r \<Longrightarrow> think_seconds r = 10 \<and> rest_seconds_default r = 15"
  by (simp add: rat_ok_def)

lemma rat_ok_reveal_phase [simp]: "rat_ok r \<Longrightarrow> rat_ok (fst (reveal_phase rid r s))"
  using rat_okD [of r]
  by (simp add: reveal_phase_def Let_def split_def)
     (simp add: rat_ok_def cancel_after_think_def split: option.splits)

lemma rat_ok_tick_think [simp]: "rat_ok r \<Longrightarrow> rat_ok (fst (tick_think rid r s))"
  by (simp add: tick_think_def Let_def split_def)

lemma rat_ok_show_think_phase [simp]:
  "think_seconds r = 10 \<Longrightarrow> rest_seconds_default r = 15 \<Longrightarrow> rat_ok (fst (show_think_phase rid r s))"
  by (simp add: show_think_phase_def Let_def split_def rat_timings_ok)

lemma rat_ok_start_next_item [simp]:
  "think_seconds r = 10 \<Longrightarrow> rest_seconds_default r = 15 \<Longrightarrow> rat_ok (fst (start_next_item rid r s))"
  by (simp add: start_next_item_def Let_def split_def rat_timings_ok)

lemma rat_ok_tick_rest [simp]: "rat_ok r \<Longrightarrow> rat_ok (fst (tick_rest rid r s))"
  using rat_okD [of r] by (simp add: tick_rest_def Let_def split_def)

lemma rat_ok_start_rest_phase [simp]:
  "think_seconds r = 10 \<Longrightarrow> rest_seconds_default r = 15 \<Longrightarrow> rat_ok (fst (start_rest_phase rid r s))"
  by (simp add: start_rest_phase_def Let_def split_def rat_timings_ok)

lemma rat_ok_keys [simp]:
  "rat_ok r \<Longrightarrow> rat_ok (fst (on_yes rid r s))"
  "rat_ok r \<Longrightarrow> rat_ok (fst (on_no rid r s))"
  using rat_okD [of r] by (simp_all add: on_yes_def on_no_def Let_def split_def)

lemma rat_ok_force_advance [simp]: "rat_ok r \<Longrightarrow> rat_ok (fst (force_advance rid r s))"
  using rat_okD [of r] by (simp add: force_advance_def Let_def split_def)

lemma rat_ok_init: "rat_ok (fst (RATGame_init rid s))"
  by (simp add: RATGame_init_def)

lemma rat_state_ok: "rat_state r \<Longrightarrow> rat_ok r"
  by (induction rule: rat_state.induct) (simp_all add: rat_ok_init)

lemma rats_start_rat_task:
  "list_all rat_state (rats s) \<Longrightarrow> list_all rat_state (rats (start_rat_task s))"
  by (simp add: start_rat_task_def Let_def split_def rs_init)

lemma rats_on_rat:
  assumes m: "\<And>r s. rat_state r \<Longrightarrow> rat_state (fst (m rid r s))"
      and f: "\<And>r s. rats (snd (m rid r s)) = rats s"
      and a: "list_all rat_state (rats s)"
  shows "list_all rat_state (rats (on_rat rid m s))"
proof (cases "rid < length (rats s)")
  case True
  with a have "rat_state (rats s ! rid)" by (simp add: list_all_length)
  with m f a show ?thesis by (simp add: on_rat_def Let_def split_def list_all_update)
next
  case False
  with f a show ?thesis by (simp add: on_rat_def Let_def split_def list_update_beyond)
qed

lemma rats_run_callback:
  "list_all rat_state (rats s) \<Longrightarrow> list_all rat_state (rats (run_callback d cb s))"
  by (cases cb) (simp_all add: run_callback_def rats_start_rat_task rats_on_postq)

lemma rats_master_skip:
  "list_all rat_state (rats s) \<Longrightarrow> list_all rat_state (rats (master_skip d s))"
  by (auto simp: master_skip_def rats_on_rat rats_on_postq rat_state.intros
      intro!: rats_run_callback split: option.splits)

lemma rats_run_timer:
  "list_all rat_state (rats s) \<Longrightarrow> list_all rat_state (rats (run_timer d cb s))"
  by (cases cb) (simp_all add: run_timer_def rats_on_rat rat_state.intros)

lemma step_rats:
  "list_all rat_state (rats s) \<Longrightarrow> list_all rat_state (rats (step d ev s))"
  by (cases ev)
     (auto simp: step_def rats_on_rat rats_on_postq rats_on_conn rat_state.intros
       intro!: rats_run_callback rats_run_timer rats_master_skip split: option.splits)

lemma submit_session:
  assumes b: "before_submit s"
  shows "before_submit (submit s) \<or> (\<exists>p. session_inv p (submit s))"
proof (cases "strip (entry_text s) = []")
  case True
  with b show ?thesis by (simp add: submit_def)
next
  case False
  have "paired (strip (entry_text s)) [marker (strip (entry_text s)) ''Session_Start'']"
    using paired_one [OF paired_Nil, of "''Session_Start''" "strip (entry_text s)"] by simp
  with b False have "session_inv (strip (entry_text s)) (submit s)"
    by (simp add: submit_def Let_def send_marker_def show_intro_def center_message_screen_def
        session_inv_def marker_def before_submit_def)
  then show ?thesis by blast
qed

lemma step_before_submit:
  assumes "before_submit s"
  shows "before_submit (step d ev s) \<or> (\<exists>p. session_inv p (step d ev s))"
proof (cases ev)
  case Key_Return
  with assms submit_session [OF assms] show ?thesis
    by (simp add: step_def before_submit_def [of s] run_callback_def)
next
  case Key_Period
  have b: "before_submit (s\<lparr>last_on_next := None\<rparr>)" using assms by (simp add: before_submit_def)
  show ?thesis
  proof (cases "last_on_next s")
    case None
    with assms Key_Period show ?thesis
      by (simp add: step_def master_skip_def before_submit_def [of s])
  next
    case (Some cb)
    with assms have "cb = CB_submit" by (simp add: before_submit_def)
    with Some Key_Period assms submit_session [OF b] show ?thesis
      by (simp add: step_def master_skip_def run_callback_def before_submit_def [of s])
  qed
qed (use assms in \<open>simp_all add: step_def before_submit_def conn_select_rating_def\<close>)

lemma step_app_inv: "app_inv s \<Longrightarrow> app_inv (step d ev s)"
  unfolding app_inv_def
  using step_before_submit [of s d ev] step_session_inv [of _ s d ev] step_games step_rats
  by blast

lemma exec_app_inv: "app_inv s \<Longrightarrow> app_inv (exec evs s)"
  by (induction evs arbitrary: s) (auto simp: step_app_inv)

lemma init_app_inv: "app_inv init"
  by (simp add: app_inv_def before_submit_def init_def)

section \<open>Runs: the markers of a session\<close>

lemma marker_inject [simp]: "marker p l = marker p l' \<longleftrightarrow> l = l'"
  by (simp add: marker_def)


lemma paired_marker: "paired p ms \<Longrightarrow> m \<in> set ms \<Longrightarrow> \<exists>l. m = marker p l"
  by (induction rule: paired.induct) auto


lemma reachable_inv: "app_inv (exec evs init)"
  by (rule exec_app_inv [OF init_app_inv])

lemma reachable_session:
  assumes "out (exec evs init) \<noteq> []"
  shows "\<exists>p. session_inv p (exec evs init)"
  using reachable_inv [of evs] assms by (auto simp: app_inv_def before_submit_def)

lemma skip_puzzle:
  assumes "last_on_next s = None" "\<not> conn_rest_active s" "conn s \<noteq> None"
  shows "master_skip d s = on_connections_puzzle_complete d s"
  using assms by (auto simp: master_skip_def)

lemma puzzle_complete_effect:
  "on_connections_puzzle_complete d s =
     (send_marker (Connections_Rest_Start (connections_puzzles_completed s + 1)) s)
       \<lparr>connections_puzzles_completed := connections_puzzles_completed s + 1,
        conn_rest_active := True, conn_rest_remaining := 14, conn_rating_choice := None,
        conn_rest_for_puzzle_index := Some (connections_puzzles_completed s + 1),
        last_on_next := Some CB_end_connections_rest,
        timers := timers s @ [(next_timer s, 1000, T_tick_connections_rest)],
        next_timer := next_timer s + 1, conn_rest_after_id := Some (next_timer s)\<rparr>"
  by (simp add: on_connections_puzzle_complete_def start_connections_rest_def
      tick_connections_rest_def after_def send_marker_def Let_def)

section \<open>The end marker of a puzzle\<close>


lemma solved_block_eval:
  "let s = exec solved_block_run init
   in player_id s = Some ''7''
      \<and> out s = [''Player7_Session_Start'', ''Player7_Connections1_Start'',
                  ''Player7_Connections1_Guess1_Correct'', ''Player7_Connections1_End'']"
  by code_simp

lemma end_marker_text: "marker ''7'' (Connections_End 1) = ''Player7_Connections1_End''"
  by code_simp

lemma solved_block_state:
  "player_id (exec solved_block_run init) = Some ''7''
   \<and> out (exec solved_block_run init)
       = [''Player7_Session_Start'', ''Player7_Connections1_Start'',
          ''Player7_Connections1_Guess1_Correct'', ''Player7_Connections1_End'']
   \<and> marker ''7'' (Connections_End 1) = ''Player7_Connections1_End''"
  using solved_block_eval end_marker_text by (simp add: Let_def)





section \<open>The text of a marker\<close>

text \<open>
  C10. \<open>send_marker\<close> always sends \<open>Player<pid>_<label>\<close>: with the participant ID when
  it is set and not empty, with \<open>NA\<close> in its place when it is unset or empty, and it
  changes nothing but the marker sequence. In every run, every marker sent carries the
  participant ID that the ID screen stored, and that ID is not empty.
\<close>

theorem markers_carry_player_id:
  "(player_id s = Some p \<and> p \<noteq> []
      \<longrightarrow> send_marker label s = s\<lparr>out := out s @ [''Player'' @ p @ ''_'' @ label]\<rparr>)
   \<and> (player_id s = None \<or> player_id s = Some []
      \<longrightarrow> send_marker label s = s\<lparr>out := out s @ [''PlayerNA_'' @ label]\<rparr>)
   \<and> (\<forall>m\<in>set (out (exec evs init)).
        \<exists>q l. player_id (exec evs init) = Some q \<and> q \<noteq> [] \<and> m = ''Player'' @ q @ ''_'' @ l)"
proof (intro conjI impI ballI)
  assume "player_id s = Some p \<and> p \<noteq> []"
  then show "send_marker label s = s\<lparr>out := out s @ [''Player'' @ p @ ''_'' @ label]\<rparr>"
    by (simp add: send_marker_def)
next
  assume "player_id s = None \<or> player_id s = Some []"
  then show "send_marker label s = s\<lparr>out := out s @ [''PlayerNA_'' @ label]\<rparr>"
    by (auto simp: send_marker_def)
next
  fix m assume m: "m \<in> set (out (exec evs init))"
  then have "out (exec evs init) \<noteq> []" by auto
  from reachable_session [OF this] obtain q where q: "session_inv q (exec evs init)" ..
  then have "paired q (out (exec evs init))" by (simp add: session_inv_def)
  from paired_marker [OF this m] obtain l where "m = marker q l" ..
  with q show "\<exists>q l. player_id (exec evs init) = Some q \<and> q \<noteq> [] \<and> m = ''Player'' @ q @ ''_'' @ l"
    by (auto simp: session_inv_def marker_def)
qed

theorem markers_carry_player_id_witness:
  "send_marker ''Session_Start'' init = init\<lparr>out := [''PlayerNA_Session_Start'']\<rparr>
   \<and> send_marker ''Session_Start'' (init\<lparr>player_id := Some ''7''\<rparr>)
       = init\<lparr>player_id := Some ''7'', out := [''Player7_Session_Start'']\<rparr>
   \<and> ''Player7_Connections1_End'' \<in> set (out (exec solved_block_run init))
   \<and> (\<exists>l. ''Player7_Connections1_End'' = ''Player7_'' @ l)"
proof -
  have n: "player_id init = None" "out init = []" by (simp_all add: init_def)
  have a: "send_marker ''Session_Start'' init = init\<lparr>out := [''PlayerNA_Session_Start'']\<rparr>"
    using markers_carry_player_id [of init _ "''Session_Start''"] n by simp
  have b: "send_marker ''Session_Start'' (init\<lparr>player_id := Some ''7''\<rparr>)
       = init\<lparr>player_id := Some ''7'', out := [''Player7_Session_Start'']\<rparr>"
    using markers_carry_player_id [of "init\<lparr>player_id := Some ''7''\<rparr>" "''7''" "''Session_Start''"] n
    by simp
  have c: "''Player7_Connections1_End'' \<in> set (out (exec solved_block_run init))"
    and d: "player_id (exec solved_block_run init) = Some ''7''"
    using solved_block_state by simp_all
  from markers_carry_player_id [of _ _ _ solved_block_run] c d
  have "\<exists>l. ''Player7_Connections1_End'' = ''Player'' @ ''7'' @ ''_'' @ l" by fastforce
  with a b c show ?thesis by simp
qed

section \<open>The selection of a puzzle\<close>







section \<open>The forced advance of a RAT item\<close>

lemmas rat_defs = force_advance_def on_no_def on_yes_def start_rest_phase_def tick_rest_def
  start_next_item_def show_think_phase_def tick_think_def reveal_phase_def cancel_after_think_def
  cancel_after_rest_def bind_yes_no_keys_def unbind_yes_no_keys_def show_congratulations_def
  center_message_screen_def

lemma force_advance_think:
  assumes "phase r = Some Think"
  shows "force_advance rid r s =
     (r\<lparr>think_after_id := None, phase := Some Reveal, awaiting_yes_no := True\<rparr>,
      (case think_after_id r of None \<Rightarrow> s | Some aid \<Rightarrow> after_cancel aid s)\<lparr>yn_bound := Some rid\<rparr>)"
  using assms by (simp add: rat_defs Let_def split: option.splits)

lemma force_advance_reveal:
  assumes "rat_ok r" "phase r = Some Reveal"
  shows "force_advance rid r s = on_no rid r s"
    "phase (fst (force_advance rid r s)) = Some Rest"
    "index (fst (force_advance rid r s)) = index r"
    "awaiting_yes_no (fst (force_advance rid r s)) = False"
    "out (snd (force_advance rid r s))
       = out (send_marker (RAT_Rest_Start (index r + 1))
               (send_marker (RAT_End (index r + 1))
                 (send_marker (RAT_Response_N (index r + 1)) s)))"
    "yn_bound (snd (force_advance rid r s)) = None"
  using assms
  by (simp_all add: rat_ok_def rat_defs after_def after_cancel_def send_marker_def Let_def
      split: option.splits)

lemma force_advance_rest:
  assumes "rat_ok r" "phase r = Some Rest"
  shows "index (fst (force_advance rid r s)) = index r + 1"
    "index r + 1 < 10 \<Longrightarrow> phase (fst (force_advance rid r s)) = Some Think"
    "index r + 1 < 10 \<Longrightarrow> out (snd (force_advance rid r s))
       = out (send_marker (RAT_Start (index r + 2)) (send_marker (RAT_Rest_End (index r + 1)) s))"
    "10 \<le> index r + 1 \<Longrightarrow> phase (fst (force_advance rid r s)) = Some Done"
    "10 \<le> index r + 1 \<Longrightarrow> out (snd (force_advance rid r s))
       = out (send_marker (RAT_Rest_End (index r + 1)) s)"
    "10 \<le> index r + 1 \<Longrightarrow> last_on_next (snd (force_advance rid r s)) = Some CB_show_post_questions"
    "rest_after_id r = Some aid \<Longrightarrow> (aid, 1000, T_tick_rest rid) \<notin> set (timers (snd (force_advance rid r s)))"
  using assms
  by (simp_all add: rat_ok_def rat_defs after_def after_cancel_def send_marker_def Let_def
      RAT_PROMPTS_def split: option.splits)

lemma force_advance_done:
  assumes "phase r = Some Done"
  shows "force_advance rid r s = (r, s)"
  using assms by (simp add: force_advance_def)


lemma player_id_basic [simp]:
  "player_id (send_marker l s) = player_id s"
  "player_id (snd (after ms tcb s)) = player_id s"
  "player_id (after_cancel aid s) = player_id s"
  "player_id (center_message_screen cb s) = player_id s"
  "player_id (show_congratulations s) = player_id s"
  "player_id (snd (cancel_after_think r s)) = player_id s"
  "player_id (snd (cancel_after_rest r s)) = player_id s"
  "player_id (bind_yes_no_keys rid s) = player_id s"
  "player_id (unbind_yes_no_keys s) = player_id s"
  by (simp_all add: send_marker_def after_def after_cancel_def center_message_screen_def
      show_congratulations_def cancel_after_think_def cancel_after_rest_def bind_yes_no_keys_def
      unbind_yes_no_keys_def split: option.splits)

lemma player_id_reveal_phase [simp]: "player_id (snd (reveal_phase rid r s)) = player_id s"
  by (simp add: reveal_phase_def Let_def split_def)

lemma player_id_tick_think [simp]: "player_id (snd (tick_think rid r s)) = player_id s"
  by (simp add: tick_think_def Let_def split_def)

lemma player_id_show_think_phase [simp]: "player_id (snd (show_think_phase rid r s)) = player_id s"
  by (simp add: show_think_phase_def Let_def split_def)

lemma player_id_start_next_item [simp]: "player_id (snd (start_next_item rid r s)) = player_id s"
  by (simp add: start_next_item_def Let_def split_def)

lemma player_id_tick_rest [simp]: "player_id (snd (tick_rest rid r s)) = player_id s"
  by (simp add: tick_rest_def Let_def split_def)

lemma player_id_start_rest_phase [simp]: "player_id (snd (start_rest_phase rid r s)) = player_id s"
  by (simp add: start_rest_phase_def Let_def split_def)

lemma player_id_rat_keys [simp]:
  "player_id (snd (on_yes rid r s)) = player_id s" "player_id (snd (on_no rid r s)) = player_id s"
  by (simp_all add: on_yes_def on_no_def Let_def split_def)

lemma force_advance_player_id: "player_id (snd (force_advance rid r s)) = player_id s"
  by (simp add: force_advance_def Let_def split_def)

text \<open>
  C6. For every state of a RAT object, \<open>force_advance\<close> does the following. Thinking: it
  cancels the pending think tick and reveals at once, sending nothing. Revealed: it is the
  No key, which sends \<open>RAT<i>_Response_N\<close>, then \<open>RAT<i>_End\<close>, then starts the rest
  (\<open>RAT<i>_Rest_Start\<close>). Resting: it cancels the pending rest tick, sends
  \<open>RAT<i>_Rest_End\<close> and moves to the next item, which starts thinking
  (\<open>RAT<i+1>_Start\<close>), or after the tenth item is done and shows the congratulations.
  Done: nothing changes. Here \<open>i\<close> is \<open>index + 1\<close>.
\<close>

theorem force_advance_mapping:
  assumes "rat_state r"
  shows "(phase r = Some Think \<longrightarrow>
            force_advance rid r s =
              (r\<lparr>think_after_id := None, phase := Some Reveal, awaiting_yes_no := True\<rparr>,
               (case think_after_id r of None \<Rightarrow> s | Some aid \<Rightarrow> after_cancel aid s)
                 \<lparr>yn_bound := Some rid\<rparr>)
            \<and> out (snd (force_advance rid r s)) = out s)
    \<and> (phase r = Some Reveal \<longrightarrow>
            force_advance rid r s = on_no rid r s
            \<and> phase (fst (force_advance rid r s)) = Some Rest
            \<and> index (fst (force_advance rid r s)) = index r
            \<and> out (snd (force_advance rid r s))
                = out (send_marker (RAT_Rest_Start (index r + 1))
                        (send_marker (RAT_End (index r + 1))
                          (send_marker (RAT_Response_N (index r + 1)) s))))
    \<and> (phase r = Some Rest \<longrightarrow>
            index (fst (force_advance rid r s)) = index r + 1
            \<and> (case rest_after_id r of
                  None \<Rightarrow> True
                | Some aid \<Rightarrow> (aid, 1000, T_tick_rest rid) \<notin> set (timers (snd (force_advance rid r s))))
            \<and> (if index r + 1 < 10
                then phase (fst (force_advance rid r s)) = Some Think
                     \<and> out (snd (force_advance rid r s))
                         = out (send_marker (RAT_Start (index r + 2))
                                 (send_marker (RAT_Rest_End (index r + 1)) s))
                else phase (fst (force_advance rid r s)) = Some Done
                     \<and> out (snd (force_advance rid r s))
                         = out (send_marker (RAT_Rest_End (index r + 1)) s)
                     \<and> last_on_next (snd (force_advance rid r s)) = Some CB_show_post_questions))
    \<and> (phase r = Some Done \<longrightarrow> force_advance rid r s = (r, s))"
proof -
  from rat_state_ok [OF assms] have ok: "rat_ok r" .
  have t: "phase r = Some Think \<longrightarrow>
            force_advance rid r s =
              (r\<lparr>think_after_id := None, phase := Some Reveal, awaiting_yes_no := True\<rparr>,
               (case think_after_id r of None \<Rightarrow> s | Some aid \<Rightarrow> after_cancel aid s)
                 \<lparr>yn_bound := Some rid\<rparr>)
            \<and> out (snd (force_advance rid r s)) = out s"
    by (auto simp: force_advance_think after_cancel_def split: option.splits)
  have v: "phase r = Some Reveal \<longrightarrow>
            force_advance rid r s = on_no rid r s
            \<and> phase (fst (force_advance rid r s)) = Some Rest
            \<and> index (fst (force_advance rid r s)) = index r
            \<and> out (snd (force_advance rid r s))
                = out (send_marker (RAT_Rest_Start (index r + 1))
                        (send_marker (RAT_End (index r + 1))
                          (send_marker (RAT_Response_N (index r + 1)) s)))"
    using force_advance_reveal [OF ok, of rid s] by blast
  have w: "phase r = Some Rest \<longrightarrow>
            index (fst (force_advance rid r s)) = index r + 1
            \<and> (case rest_after_id r of
                  None \<Rightarrow> True
                | Some aid \<Rightarrow> (aid, 1000, T_tick_rest rid) \<notin> set (timers (snd (force_advance rid r s))))
            \<and> (if index r + 1 < 10
                then phase (fst (force_advance rid r s)) = Some Think
                     \<and> out (snd (force_advance rid r s))
                         = out (send_marker (RAT_Start (index r + 2))
                                 (send_marker (RAT_Rest_End (index r + 1)) s))
                else phase (fst (force_advance rid r s)) = Some Done
                     \<and> out (snd (force_advance rid r s))
                         = out (send_marker (RAT_Rest_End (index r + 1)) s)
                     \<and> last_on_next (snd (force_advance rid r s)) = Some CB_show_post_questions)"
    using force_advance_rest [OF ok]
    by (cases "rest_after_id r") (simp_all add: not_less)
  have d: "phase r = Some Done \<longrightarrow> force_advance rid r s = (r, s)"
    by (simp add: force_advance_done)
  from t v w d show ?thesis by blast
qed

lemma rat_sample0_eval:
  "let x = RATGame_init 0 init
   in phase (fst x) = Some Think \<and> index (fst x) = 0
      \<and> think_after_id (fst x) = Some 0 \<and> rest_after_id (fst x) = None
      \<and> out (snd x) = [''PlayerNA_RAT1_Start'']
      \<and> timers (snd x) = [(0, 1000, T_tick_think 0)]
      \<and> player_id (snd x) = None"
  by code_simp

lemma rat_sample0_state:
  "phase (fst rat_sample0) = Some Think \<and> index (fst rat_sample0) = 0
   \<and> think_after_id (fst rat_sample0) = Some 0 \<and> rest_after_id (fst rat_sample0) = None
   \<and> out (snd rat_sample0) = [''PlayerNA_RAT1_Start'']
   \<and> timers (snd rat_sample0) = [(0, 1000, T_tick_think 0)]
   \<and> player_id (snd rat_sample0) = None"
  unfolding rat_sample0_def using rat_sample0_eval by (simp add: Let_def)

theorem force_advance_mapping_witness:
  "phase (fst rat_sample0) = Some Think
   \<and> phase (fst rat_sample1) = Some Reveal \<and> timers (snd rat_sample1) = []
   \<and> phase (fst rat_sample2) = Some Rest
   \<and> out (snd rat_sample2) = [''PlayerNA_RAT1_Start'', ''PlayerNA_RAT1_Response_N'',
        ''PlayerNA_RAT1_End'', ''PlayerNA_RAT1_Rest_Start'']
   \<and> phase (fst rat_sample3) = Some Think \<and> index (fst rat_sample3) = 1
   \<and> out (snd rat_sample3) = [''PlayerNA_RAT1_Start'', ''PlayerNA_RAT1_Response_N'',
        ''PlayerNA_RAT1_End'', ''PlayerNA_RAT1_Rest_Start'', ''PlayerNA_RAT1_Rest_End'',
        ''PlayerNA_RAT2_Start'']"
proof -
  have s0: "rat_state (fst rat_sample0)" unfolding rat_sample0_def by (rule rs_init)
  have s1: "rat_state (fst rat_sample1)" unfolding rat_sample1_def by (rule rs_force_advance [OF s0])
  have s2: "rat_state (fst rat_sample2)" unfolding rat_sample2_def by (rule rs_force_advance [OF s1])
  note z = rat_sample0_state
  have n: "str_nat (Suc 0) = ''1''" "str_nat (Suc (Suc 0)) = ''2''"
    by (simp_all add: str_nat.simps digit_char_def)
  from force_advance_mapping [OF s0, of 0 "snd rat_sample0"] z
  have a: "rat_sample1 =
      ((fst rat_sample0)\<lparr>think_after_id := None, phase := Some Reveal, awaiting_yes_no := True\<rparr>,
       (after_cancel 0 (snd rat_sample0))\<lparr>yn_bound := Some 0\<rparr>)"
    by (simp add: rat_sample1_def)
  have a': "phase (fst rat_sample1) = Some Reveal" "index (fst rat_sample1) = 0"
    "timers (snd rat_sample1) = []" "out (snd rat_sample1) = [''PlayerNA_RAT1_Start'']"
    "player_id (snd rat_sample1) = None"
    unfolding a using z by (simp_all add: after_cancel_def)
  from force_advance_mapping [OF s1, of 0 "snd rat_sample1"] a'(1)
  have b0: "phase (fst rat_sample2) = Some Rest \<and> index (fst rat_sample2) = index (fst rat_sample1)
    \<and> out (snd rat_sample2)
        = out (send_marker (RAT_Rest_Start (index (fst rat_sample1) + 1))
               (send_marker (RAT_End (index (fst rat_sample1) + 1))
                 (send_marker (RAT_Response_N (index (fst rat_sample1) + 1)) (snd rat_sample1))))"
    unfolding rat_sample2_def by blast
  then have b: "phase (fst rat_sample2) = Some Rest" "index (fst rat_sample2) = 0"
    "out (snd rat_sample2) = [''PlayerNA_RAT1_Start'', ''PlayerNA_RAT1_Response_N'',
        ''PlayerNA_RAT1_End'', ''PlayerNA_RAT1_Rest_Start'']"
    by (simp_all add: a' send_marker_def RAT_Response_N_def RAT_End_def RAT_Rest_Start_def n)
  have pid: "player_id (snd rat_sample2) = None"
    using a'(5) by (simp add: rat_sample2_def force_advance_player_id)
  from force_advance_mapping [OF s2, of 0 "snd rat_sample2"] b(1,2)
  have c0: "phase (fst rat_sample3) = Some Think \<and> index (fst rat_sample3) = index (fst rat_sample2) + 1
    \<and> out (snd rat_sample3)
        = out (send_marker (RAT_Start (index (fst rat_sample2) + 2))
               (send_marker (RAT_Rest_End (index (fst rat_sample2) + 1)) (snd rat_sample2)))"
    unfolding rat_sample3_def by simp
  then have c: "phase (fst rat_sample3) = Some Think \<and> index (fst rat_sample3) = 1
   \<and> out (snd rat_sample3) = [''PlayerNA_RAT1_Start'', ''PlayerNA_RAT1_Response_N'',
        ''PlayerNA_RAT1_End'', ''PlayerNA_RAT1_Rest_Start'', ''PlayerNA_RAT1_Rest_End'',
        ''PlayerNA_RAT2_Start'']"
    by (simp add: b pid send_marker_def RAT_Rest_End_def RAT_Start_def n)
  from z a' b c show ?thesis by simp
qed

section \<open>Inputs after the first\<close>

lemma rating_bound_noop: "conn_rating_choice s \<noteq> None \<Longrightarrow> conn_select_rating v s = s"
  by (simp add: conn_select_rating_def)

lemma rating_idempotent: "conn_select_rating w (conn_select_rating v s) = conn_select_rating v s"
  by (simp add: conn_select_rating_def send_marker_def Let_def)

lemma answered_phase:
  assumes "rat_ok r"
  shows "\<not> (phase (fst (on_yes rid r s)) = Some Reveal \<and> awaiting_yes_no (fst (on_yes rid r s)))"
    "\<not> (phase (fst (on_no rid r s)) = Some Reveal \<and> awaiting_yes_no (fst (on_no rid r s)))"
    "phase r = Some Reveal \<Longrightarrow> awaiting_yes_no r \<Longrightarrow> phase (fst (on_yes rid r s)) = Some Rest"
    "phase r = Some Reveal \<Longrightarrow> awaiting_yes_no r \<Longrightarrow> phase (fst (on_no rid r s)) = Some Rest"
    "phase r = Some Reveal \<Longrightarrow> awaiting_yes_no r \<Longrightarrow> yn_bound (snd (on_yes rid r s)) = None"
    "phase r = Some Reveal \<Longrightarrow> awaiting_yes_no r \<Longrightarrow> yn_bound (snd (on_no rid r s)) = None"
  using assms
  by (auto simp: rat_ok_def rat_defs after_def after_cancel_def send_marker_def Let_def
      split: option.splits)

text \<open>
  C9. A click on a rating button when a rating is already bound returns the state as it
  was: no marker, the same choice; so a second click after any first click changes
  nothing. For every state of a RAT object: with no answer awaited, the Y and the N key
  return the object and the process as they were; after either key was handled, the object
  ignores both keys; and when the answer was given in the reveal phase, the keys are
  unbound, so that a further Y or N key event changes nothing at all.
\<close>

theorem late_inputs_are_ignored:
  assumes "rat_state r"
  shows "(conn_rating_choice t \<noteq> None \<longrightarrow> conn_select_rating v t = t)
    \<and> conn_select_rating w (conn_select_rating v t) = conn_select_rating v t
    \<and> (\<not> awaiting_yes_no r \<longrightarrow> on_yes rid r s = (r, s) \<and> on_no rid r s = (r, s))
    \<and> on_yes rid (fst (on_yes rid r s)) s' = (fst (on_yes rid r s), s')
    \<and> on_no rid (fst (on_yes rid r s)) s' = (fst (on_yes rid r s), s')
    \<and> on_yes rid (fst (on_no rid r s)) s' = (fst (on_no rid r s), s')
    \<and> on_no rid (fst (on_no rid r s)) s' = (fst (on_no rid r s), s')
    \<and> (phase r = Some Reveal \<longrightarrow>
          yn_bound (snd (on_yes rid r s)) = None \<and> yn_bound (snd (on_no rid r s)) = None
          \<and> step d Key_Y (snd (on_yes rid r s)) = snd (on_yes rid r s)
          \<and> step d Key_N (snd (on_yes rid r s)) = snd (on_yes rid r s)
          \<and> step d Key_Y (snd (on_no rid r s)) = snd (on_no rid r s)
          \<and> step d Key_N (snd (on_no rid r s)) = snd (on_no rid r s))"
proof -
  from rat_state_ok [OF assms] have ok: "rat_ok r" .
  have a: "\<not> awaiting_yes_no r \<longrightarrow> on_yes rid r s = (r, s) \<and> on_no rid r s = (r, s)"
    by (simp add: on_yes_def on_no_def)
  have b: "on_yes rid (fst (on_yes rid r s)) s' = (fst (on_yes rid r s), s')"
    "on_no rid (fst (on_yes rid r s)) s' = (fst (on_yes rid r s), s')"
    using answered_phase(1) [OF ok, of rid s]
    by (simp_all add: on_yes_def [of rid "fst (on_yes rid r s)"] on_no_def [of rid "fst (on_yes rid r s)"])
  have c: "on_yes rid (fst (on_no rid r s)) s' = (fst (on_no rid r s), s')"
    "on_no rid (fst (on_no rid r s)) s' = (fst (on_no rid r s), s')"
    using answered_phase(2) [OF ok, of rid s]
    by (simp_all add: on_yes_def [of rid "fst (on_no rid r s)"] on_no_def [of rid "fst (on_no rid r s)"])
  have e: "phase r = Some Reveal \<longrightarrow>
          yn_bound (snd (on_yes rid r s)) = None \<and> yn_bound (snd (on_no rid r s)) = None
          \<and> step d Key_Y (snd (on_yes rid r s)) = snd (on_yes rid r s)
          \<and> step d Key_N (snd (on_yes rid r s)) = snd (on_yes rid r s)
          \<and> step d Key_Y (snd (on_no rid r s)) = snd (on_no rid r s)
          \<and> step d Key_N (snd (on_no rid r s)) = snd (on_no rid r s)"
  proof
    assume p: "phase r = Some Reveal"
    with ok have w: "awaiting_yes_no r" by (simp add: rat_ok_def)
    from answered_phase(5,6) [OF ok p w]
    have "yn_bound (snd (on_yes rid r s)) = None" "yn_bound (snd (on_no rid r s)) = None" by simp_all
    then show "yn_bound (snd (on_yes rid r s)) = None \<and> yn_bound (snd (on_no rid r s)) = None
          \<and> step d Key_Y (snd (on_yes rid r s)) = snd (on_yes rid r s)
          \<and> step d Key_N (snd (on_yes rid r s)) = snd (on_yes rid r s)
          \<and> step d Key_Y (snd (on_no rid r s)) = snd (on_no rid r s)
          \<and> step d Key_N (snd (on_no rid r s)) = snd (on_no rid r s)"
      by (simp add: step_def)
  qed
  from a b c e rating_bound_noop rating_idempotent show ?thesis by blast
qed


lemma rated_rest_eval:
  "let s = exec rated_rest_run init
   in conn_rating_choice s = Some 3
      \<and> out s = [''Player7_Session_Start'', ''Player7_Connections1_Start'',
                  ''Player7_Connections1_Rest_Start'', ''Player7_ConnectionQ1_3'']"
  by code_simp

lemma rated_rest_state:
  "conn_rating_choice (exec rated_rest_run init) = Some 3
   \<and> out (exec rated_rest_run init)
       = [''Player7_Session_Start'', ''Player7_Connections1_Start'',
          ''Player7_Connections1_Rest_Start'', ''Player7_ConnectionQ1_3'']"
  using rated_rest_eval by (simp add: Let_def)

theorem late_inputs_are_ignored_witness:
  "conn_rating_choice (exec rated_rest_run init) = Some 3
   \<and> conn_select_rating 5 (exec rated_rest_run init) = exec rated_rest_run init
   \<and> phase (fst rat_sample1) = Some Reveal
   \<and> on_no 0 (fst (on_yes 0 (fst rat_sample1) (snd rat_sample1)))
              (snd (on_yes 0 (fst rat_sample1) (snd rat_sample1)))
       = on_yes 0 (fst rat_sample1) (snd rat_sample1)
   \<and> step sample_draw Key_N (snd (on_yes 0 (fst rat_sample1) (snd rat_sample1)))
       = snd (on_yes 0 (fst rat_sample1) (snd rat_sample1))"
proof -
  have s0: "rat_state (fst rat_sample0)" unfolding rat_sample0_def by (rule rs_init)
  have s1: "rat_state (fst rat_sample1)" unfolding rat_sample1_def by (rule rs_force_advance [OF s0])
  have p: "phase (fst rat_sample1) = Some Reveal"
    using rat_sample0_state by (simp add: rat_sample1_def force_advance_think)
  have c: "conn_rating_choice (exec rated_rest_run init) = Some 3"
    using rated_rest_state by simp
  note t = late_inputs_are_ignored [OF s1, where t = "exec rated_rest_run init" and v = 5
      and rid = 0 and s = "snd rat_sample1"
      and s' = "snd (on_yes 0 (fst rat_sample1) (snd rat_sample1))" and d = sample_draw]
  from t c have a: "conn_select_rating 5 (exec rated_rest_run init) = exec rated_rest_run init"
    by simp
  from t have b: "on_no 0 (fst (on_yes 0 (fst rat_sample1) (snd rat_sample1)))
              (snd (on_yes 0 (fst rat_sample1) (snd rat_sample1)))
       = on_yes 0 (fst rat_sample1) (snd rat_sample1)"
    by simp
  from t p have e: "step sample_draw Key_N (snd (on_yes 0 (fst rat_sample1) (snd rat_sample1)))
       = snd (on_yes 0 (fst rat_sample1) (snd rat_sample1))"
    by blast
  from c a p b e show ?thesis by blast
qed

section \<open>Fifteen puzzles, then the RAT instructions\<close>







section \<open>Runs in which a stale callable acts\<close>

lemma exec_append: "exec (xs @ ys) s = exec ys (exec xs s)"
  by (induction xs arbitrary: s) auto

lemma timed_rest_eval:
  "let s = exec timed_rest_run init
   in last_on_next s = Some CB_end_connections_rest \<and> \<not> conn_rest_active s \<and> \<not> destroyed s
      \<and> conn s = Some 1 \<and> length (conns s) = 2 \<and> puzzle_index (conns s ! 1) = 2
      \<and> connections_puzzles_completed s = 1 \<and> connections_spontaneity s = [None]
      \<and> timers s = []
      \<and> out s = [''Player7_Session_Start'', ''Player7_Connections1_Start'',
                  ''Player7_Connections1_Guess1_Correct'', ''Player7_Connections1_End'',
                  ''Player7_Connections1_Rest_Start'', ''Player7_ConnectionQ1_NoResponse'',
                  ''Player7_Connections1_Rest_End'', ''Player7_Connections2_Start'']"
  by code_simp

lemma skip_after_timed_rest_eval:
  "let s = exec skip_after_timed_rest_run init
   in last_on_next s = None \<and> \<not> conn_rest_active s
      \<and> conn s = Some 2 \<and> length (conns s) = 3 \<and> puzzle_index (conns s ! 2) = 2
      \<and> connections_puzzles_completed s = 1 \<and> connections_spontaneity s = [None, None]
      \<and> out s = [''Player7_Session_Start'', ''Player7_Connections1_Start'',
                  ''Player7_Connections1_Guess1_Correct'', ''Player7_Connections1_End'',
                  ''Player7_Connections1_Rest_Start'', ''Player7_ConnectionQ1_NoResponse'',
                  ''Player7_Connections1_Rest_End'', ''Player7_Connections2_Start'',
                  ''Player7_ConnectionQ1_NoResponse'', ''Player7_Connections1_Rest_End'',
                  ''Player7_Connections2_Start'']"
  by code_simp

lemma stale_completion_eval:
  "let s = exec stale_completion_run init
   in conn_rest_active s \<and> conn_rest_for_puzzle_index s = Some 2
      \<and> connections_puzzles_completed s = 2 \<and> length (conns s) = 1
      \<and> timers s = [(1, 1000, T_tick_connections_rest), (2, 1000, T_tick_connections_rest)]
      \<and> out s = [''Player7_Session_Start'', ''Player7_Connections1_Start'',
                  ''Player7_Connections1_Guess1_Correct'', ''Player7_Connections1_End'',
                  ''Player7_Connections1_Rest_Start'', ''Player7_Connections2_Rest_Start'']"
  by code_simp

text \<open>
  C1 does not hold of the code. After puzzle 1 was solved and its rest ran out by itself,
  puzzle 2 is on screen: no message screen, no rest. But \<open>_end_connections_rest\<close> never
  cleared \<open>_last_on_next\<close>, which the rest had set to \<open>_end_connections_rest\<close> itself. The
  master skip therefore does not complete puzzle 2: it ends the rest of puzzle 1 a second
  time (NoResponse and Rest_End of puzzle 1 again), starts a second puzzle 2, and no rest
  is entered. The count of completed puzzles stays 1.
\<close>

theorem skip_in_second_puzzle_reruns_rest_end:
  "last_on_next (exec timed_rest_run init) = Some CB_end_connections_rest
   \<and> \<not> conn_rest_active (exec timed_rest_run init)
   \<and> conn (exec timed_rest_run init) = Some 1
   \<and> puzzle_index (conns (exec timed_rest_run init) ! 1) = 2
   \<and> connections_puzzles_completed (exec timed_rest_run init) = 1
   \<and> \<not> conn_rest_active (step sample_draw Key_Period (exec timed_rest_run init))
   \<and> connections_puzzles_completed (step sample_draw Key_Period (exec timed_rest_run init)) = 1
   \<and> out (step sample_draw Key_Period (exec timed_rest_run init))
       = out (exec timed_rest_run init)
         @ [''Player7_ConnectionQ1_NoResponse'', ''Player7_Connections1_Rest_End'',
            ''Player7_Connections2_Start'']"
proof -
  have "step sample_draw Key_Period (exec timed_rest_run init) = exec skip_after_timed_rest_run init"
    by (simp add: skip_after_timed_rest_run_def exec_append with_draw_def)
  with timed_rest_eval skip_after_timed_rest_eval show ?thesis by (simp add: Let_def)
qed


text \<open>
  C4 does not hold of the code, through the same stale callable: in the run above, with
  the master skip as its last event, the one rest of puzzle 1 (one Rest_Start) has sent
  \<open>ConnectionQ1_NoResponse\<close> twice and appended two entries to the rating sequence.
\<close>

theorem rating_recorded_twice:
  "connections_spontaneity (exec skip_after_timed_rest_run init) = [None, None]
   \<and> count_list (out (exec skip_after_timed_rest_run init)) ''Player7_Connections1_Rest_Start'' = 1
   \<and> count_list (out (exec skip_after_timed_rest_run init)) ''Player7_ConnectionQ1_NoResponse'' = 2"
  using skip_after_timed_rest_eval by (simp add: Let_def)


text \<open>
  C3 does not hold of the code. The ticks are guarded: a tick of a phase that is over
  changes nothing. The completion callback of a puzzle is not: \<open>check_selection\<close> keeps no
  handle of it, nothing cancels it, and \<open>on_connections_puzzle_complete\<close> tests nothing.
\<close>

lemma stale_ticks_are_guarded:
  "phase r \<noteq> Some Think \<Longrightarrow> tick_think rid r s = (r, s)"
  "phase r \<noteq> Some Rest \<Longrightarrow> tick_rest rid r s = (r, s)"
  "\<not> conn_rest_active s \<Longrightarrow> tick_connections_rest d s = s"
  by (simp_all add: tick_think_def tick_rest_def tick_connections_rest_def)

text \<open>
  C3, the run that breaks it. Puzzle 1 is solved, and the master skip advances to its rest
  while the completion callback is pending. When the callback fires it completes a puzzle a
  second time: two puzzles are counted though one was created, the rest of puzzle 2 starts
  over the rest of puzzle 1, which never ends, and two countdowns are pending.
\<close>

theorem stale_completion_after_skip:
  "connections_puzzles_completed (exec stale_completion_run init) = 2
   \<and> conn_rest_for_puzzle_index (exec stale_completion_run init) = Some 2
   \<and> length (conns (exec stale_completion_run init)) = 1
   \<and> timers (exec stale_completion_run init)
       = [(1, 1000, T_tick_connections_rest), (2, 1000, T_tick_connections_rest)]
   \<and> out (exec stale_completion_run init)
       = [''Player7_Session_Start'', ''Player7_Connections1_Start'',
          ''Player7_Connections1_Guess1_Correct'', ''Player7_Connections1_End'',
          ''Player7_Connections1_Rest_Start'', ''Player7_Connections2_Rest_Start'']"
  using stale_completion_eval by (simp add: Let_def)

section \<open>The master skip in the RAT stage\<close>

lemma start_rat_task_slots:
  "last_on_next (start_rat_task s) = None" "conn (start_rat_task s) = conn s"
  "conn_rest_active (start_rat_task s) = conn_rest_active s"
  "rat (start_rat_task s) = Some (length (rats s))"
  by (simp_all add: start_rat_task_def RATGame_init_def rat_defs RAT_PROMPTS_def after_def
      after_cancel_def send_marker_def Let_def)

text \<open>
  \<open>start_rat_task\<close> clears \<open>_last_on_next\<close>, and \<open>self.conn\<close> still refers to the last
  puzzle. So in the RAT stage of a session that played the Connections stage the master
  skip takes the branch of the puzzles, which comes before the branch of the RAT: it counts
  one more puzzle as completed and starts a rest, and \<open>force_advance\<close> is not called; the
  RAT objects are as they were.
\<close>

lemma skip_in_rat_stage:
  assumes "conn s \<noteq> None" "\<not> conn_rest_active s"
  shows "master_skip d (start_rat_task s) = on_connections_puzzle_complete d (start_rat_task s)"
    "rats (master_skip d (start_rat_task s)) = rats (start_rat_task s)"
    "conn_rest_active (master_skip d (start_rat_task s))"
proof -
  show a: "master_skip d (start_rat_task s) = on_connections_puzzle_complete d (start_rat_task s)"
    using assms by (intro skip_puzzle) (simp_all add: start_rat_task_slots)
  show "rats (master_skip d (start_rat_task s)) = rats (start_rat_task s)"
    "conn_rest_active (master_skip d (start_rat_task s))"
    unfolding a by (simp_all add: puzzle_complete_effect)
qed

end
